theory Spec2Isabelle
  imports Complex_Main "HOL-Library.Sublist"
begin

section \<open>Values shared by the services\<close>

text \<open>
  Text is modelled as a list of characters with code points below 256; the Python
  source works on Unicode strings, whose first 256 code points behave as written here.
  JSON values stored in \<open>details\<close> and \<open>metadata\<close> dictionaries are \<open>jval\<close>.
\<close>

datatype jval =
    JNull | JBool bool | JInt int | JNum real | JStr string
  | JArr "jval list" | JObj "(string \<times> jval) list"

text \<open>
  \<open>ServiceError(message, code, details)\<close> of \<open>core/services/base.py\<close>; every other
  exception is kept with its \<open>str()\<close> text only.
\<close>

datatype exn =
    ServiceError (message: string) (code: string) (details: "(string \<times> jval) list")
  | PyException (message: string)

text \<open>\<open>str(n)\<close> for an integer.\<close>

definition digit_char :: "nat \<Rightarrow> char" where
  "digit_char d = char_of (48 + d)"

function str_nat :: "nat \<Rightarrow> string" where
  "str_nat n = (if n < 10 then [digit_char n] else str_nat (n div 10) @ [digit_char (n mod 10)])"
  by pat_completeness auto
termination
  by (relation "measure id") auto

declare str_nat.simps [simp del]

definition str_int :: "int \<Rightarrow> string" where
  "str_int i = (if i < 0 then CHR ''-'' # str_nat (nat (- i)) else str_nat (nat i))"

text \<open>\<open>int(x)\<close> for a float truncates towards zero.\<close>

definition py_int :: "real \<Rightarrow> int" where
  "py_int x = (if 0 \<le> x then \<lfloor>x\<rfloor> else \<lceil>x\<rceil>)"

section \<open>Circuit breaker of \<open>BlogGenerationService\<close>\<close>

text \<open>
  The class attributes read from the Django settings, with the defaults written in
  \<open>generation.py\<close> and \<open>prompts.py\<close>.
\<close>

record settings =
  MAX_RETRIES :: int
  RETRY_DELAY :: real
  FAST_MAX_TOKENS :: int
  GENERATION_TIMEOUT :: int
  FAST_TIMEOUT :: int
  DEFAULT_MODEL :: string
  FAST_MODEL :: string
  GEMINI_MODEL :: string
  GEMINI_FAST_MODEL :: string
  CIRCUIT_FAILURE_THRESHOLD :: int
  CIRCUIT_COOL_OFF_SECONDS :: int
  FAST_MIN_WORDS :: int
  FAST_MAX_WORDS :: int
  NORMAL_MIN_WORDS :: int
  NORMAL_MAX_WORDS :: int

definition default_settings :: settings where
  "default_settings = \<lparr>
     MAX_RETRIES = 2,
     RETRY_DELAY = 1,
     FAST_MAX_TOKENS = 650,
     GENERATION_TIMEOUT = 60,
     FAST_TIMEOUT = 30,
     DEFAULT_MODEL = ''claude-3-5-sonnet-20241022'',
     FAST_MODEL = ''claude-3-5-sonnet-20241022'',
     GEMINI_MODEL = ''gemini-2.0-flash'',
     GEMINI_FAST_MODEL = ''gemini-2.0-flash'',
     CIRCUIT_FAILURE_THRESHOLD = 3,
     CIRCUIT_COOL_OFF_SECONDS = 30,
     FAST_MIN_WORDS = 180,
     FAST_MAX_WORDS = 260,
     NORMAL_MIN_WORDS = 800,
     NORMAL_MAX_WORDS = 1200 \<rparr>"

record provider_state =
  failures :: int
  open_until :: real

type_synonym circuit = "string \<rightharpoonup> provider_state"

definition closed_state :: provider_state where
  "closed_state = \<lparr> failures = 0, open_until = 0 \<rparr>"

text \<open>The class attribute \<open>_provider_state\<close> as the class body creates it.\<close>

definition provider_state_init :: circuit where
  "provider_state_init = [''anthropic'' \<mapsto> closed_state, ''gemini'' \<mapsto> closed_state]"

text \<open>\<open>self._provider_state.get(self.provider, {'failures': 0, 'open_until': 0.0})\<close>\<close>

definition get_state :: "circuit \<Rightarrow> string \<Rightarrow> provider_state" where
  "get_state st provider = (case st provider of None \<Rightarrow> closed_state | Some s \<Rightarrow> s)"

text \<open>
  \<open>_check_circuit_state\<close> reads the clock twice: \<open>now\<close> decides, \<open>later\<close> is the
  reading the retry estimate is computed from.
\<close>

definition check_circuit_state :: "string \<Rightarrow> circuit \<Rightarrow> real \<Rightarrow> real \<Rightarrow> exn + unit" where
  "check_circuit_state provider st now later =
     (let state = get_state st provider in
      if open_until state > now then
        (let retry_after = py_int (open_until state - later) in
         Inl (ServiceError
           (provider @ '' provider temporarily unavailable. Retry in ~'' @ str_int retry_after @ ''s.'')
           ''PROVIDER_UNAVAILABLE''
           [(''provider'', JStr provider), (''retry_after_seconds'', JInt (max retry_after 1))]))
      else Inr ())"

definition record_success :: "string \<Rightarrow> circuit \<Rightarrow> circuit" where
  "record_success provider st =
     (if provider \<in> dom st then st(provider \<mapsto> closed_state) else st)"

text \<open>\<open>setdefault\<close> followed by the write-back of the new state; \<open>now\<close> is \<open>time.time()\<close>.\<close>

definition record_failure :: "settings \<Rightarrow> string \<Rightarrow> circuit \<Rightarrow> real \<Rightarrow> circuit" where
  "record_failure cfg provider st now =
     (let state = get_state st provider;
          failures' = failures state + 1;
          open_until' = (if failures' \<ge> CIRCUIT_FAILURE_THRESHOLD cfg
                         then now + of_int (CIRCUIT_COOL_OFF_SECONDS cfg)
                         else open_until state)
      in st(provider \<mapsto> \<lparr> failures = failures', open_until = open_until' \<rparr>))"

text \<open>Consecutive \<open>_record_failure\<close> calls, one at each clock reading of the list.\<close>

definition record_failures :: "settings \<Rightarrow> string \<Rightarrow> circuit \<Rightarrow> real list \<Rightarrow> circuit" where
  "record_failures cfg provider st ts = fold (\<lambda>now s. record_failure cfg provider s now) ts st"

section \<open>Calling the model with retries\<close>

text \<open>\<open>str.lower()\<close> and \<open>sub in s\<close> on the code points below 256.\<close>

definition lower_char :: "char \<Rightarrow> char" where
  "lower_char c =
     (let n = (of_char c :: nat) in
      if (65 \<le> n \<and> n \<le> 90) \<or> (192 \<le> n \<and> n \<le> 222 \<and> n \<noteq> 215)
      then char_of (n + 32) else c)"

definition lower :: "string \<Rightarrow> string" where
  "lower s = map lower_char s"

fun py_in :: "string \<Rightarrow> string \<Rightarrow> bool" where
  "py_in sub [] = (sub = [])"
| "py_in sub (c # cs) = (prefix sub (c # cs) \<or> py_in sub cs)"

text \<open>\<open>a or b\<close> on strings.\<close>

definition str_or :: "string \<Rightarrow> string \<Rightarrow> string" where
  "str_or a b = (if a \<noteq> [] then a else b)"

text \<open>The request that both provider calls send.\<close>

record request =
  req_model :: string
  req_max_tokens :: int
  req_temperature :: real
  req_system :: string
  req_user :: string
  req_timeout :: int

text \<open>
  What one call of \<open>client.messages.create\<close> does: it returns a message (the texts of
  its content blocks, the token counts, and the measured time already rounded to two
  decimals), raises an \<open>AnthropicError\<close> (with its \<open>status_code\<close> attribute, if any,
  and its \<open>str()\<close>), or raises another exception.
\<close>

datatype anthropic_outcome =
    Message "string list" int int real
  | AnthropicError "int option" string
  | OtherException string

text \<open>
  What one \<open>urlopen\<close> of the Gemini endpoint does: a decoded response (the texts of the
  parts of the first candidate, the \<open>usageMetadata\<close> counters, the rounded time), an
  \<open>HTTPError\<close> (status code, body, and the \<open>error.message\<close> and first
  \<open>details[].reason\<close> that \<open>json.loads\<close> finds in the body, empty when absent), or
  another exception.
\<close>

datatype gemini_outcome =
    GeminiResponse "string list" "(string \<times> int) list" real
  | HTTPError int string string string
  | GeminiException string

record response_data =
  content :: string
  usage :: "(string \<times> jval) list"

text \<open>How the retry loop ended: a return, a raise from inside the loop, or falling out of it.\<close>

datatype loop_end = Returned response_data | Raised exn | Exhausted "string option"

record retry_run =
  result :: "exn + response_data"
  calls :: nat
  sleeps :: "real list"
  circuit_after :: circuit

text \<open>The fail-fast branch of \<open>except AnthropicError\<close>.\<close>

definition anthropic_fatal :: "int option \<Rightarrow> string \<Rightarrow> exn option" where
  "anthropic_fatal status_code error_message =
     (case status_code of
        None \<Rightarrow> None
      | Some sc \<Rightarrow>
          if sc \<noteq> 0 \<and> sc < 500 \<and> sc \<noteq> 429 then
            (if py_in ''credit balance is too low'' (lower error_message) then
               Some (ServiceError
                 (''Anthropic billing issue: insufficient API credits. '' @
                  ''Please top up your Anthropic account and try again.'')
                 ''BILLING_ERROR''
                 [(''provider'', JStr ''anthropic''), (''status_code'', JInt sc)])
             else
               Some (ServiceError
                 (''Anthropic request failed: '' @ error_message)
                 ''API_REQUEST_ERROR''
                 [(''provider'', JStr ''anthropic''), (''status_code'', JInt sc)]))
          else None)"

text \<open>
  The loop \<open>for attempt in range(max_retries + 1)\<close> of \<open>_call_claude_with_retry\<close>:
  the first numeric argument counts the iterations left, \<open>attempt\<close> is the loop
  variable, and the sleeps are collected in order.
\<close>

fun claude_loop ::
  "settings \<Rightarrow> (nat \<Rightarrow> anthropic_outcome) \<Rightarrow> string \<Rightarrow> int \<Rightarrow> nat \<Rightarrow> nat \<Rightarrow> string option \<Rightarrow> real list
     \<Rightarrow> loop_end \<times> nat \<times> real list" where
  "claude_loop cfg create model max_retries 0 attempt last_error sl =
     (Exhausted last_error, attempt, sl)"
| "claude_loop cfg create model max_retries (Suc k) attempt last_error sl =
     (case create attempt of
        Message blocks input_tokens output_tokens generation_time \<Rightarrow>
          (Returned \<lparr> content = (case blocks of [] \<Rightarrow> [] | b # _ \<Rightarrow> b),
                      usage = [(''model'', JStr model),
                               (''input_tokens'', JInt input_tokens),
                               (''output_tokens'', JInt output_tokens),
                               (''total_tokens'', JInt (input_tokens + output_tokens)),
                               (''generation_time_seconds'', JNum generation_time),
                               (''retry_count'', JInt (int attempt))] \<rparr>,
           Suc attempt, sl)
      | AnthropicError status_code error_message \<Rightarrow>
          (case anthropic_fatal status_code error_message of
             Some e \<Rightarrow> (Raised e, Suc attempt, sl)
           | None \<Rightarrow>
               claude_loop cfg create model max_retries k (Suc attempt) (Some error_message)
                 (if int attempt < max_retries then sl @ [RETRY_DELAY cfg * 2 ^ attempt] else sl))
      | OtherException text \<Rightarrow> (Exhausted (Some text), Suc attempt, sl))"

text \<open>\<open>str(last_error)\<close>, which is \<open>'None'\<close> when no attempt was made.\<close>

definition str_last_error :: "string option \<Rightarrow> string" where
  "str_last_error e = (case e of None \<Rightarrow> ''None'' | Some s \<Rightarrow> s)"

text \<open>
  The code after the loop (\<open>_record_failure\<close>, then \<open>API_ERROR\<close>), shared by both
  provider calls: \<open>provider\<close> is \<open>self.provider\<close>, the key \<open>_record_failure\<close>
  counts under, and \<open>name\<close> the provider name written literally into \<open>details\<close>.
\<close>

definition finish_retry ::
  "settings \<Rightarrow> string \<Rightarrow> string \<Rightarrow> circuit \<Rightarrow> real \<Rightarrow> loop_end \<times> nat \<times> real list \<Rightarrow> retry_run" where
  "finish_retry cfg provider name st now_failure r =
     (case r of
        (Returned d, n, sl) \<Rightarrow> \<lparr> result = Inr d, calls = n, sleeps = sl, circuit_after = st \<rparr>
      | (Raised e, n, sl) \<Rightarrow> \<lparr> result = Inl e, calls = n, sleeps = sl, circuit_after = st \<rparr>
      | (Exhausted last_error, n, sl) \<Rightarrow>
          \<lparr> result = Inl (ServiceError
               ''Failed to generate content after retry attempts. Please try again shortly.''
               ''API_ERROR''
               [(''last_error'', JStr (str_last_error last_error)), (''provider'', JStr name)]),
            calls = n, sleeps = sl,
            circuit_after = record_failure cfg provider st now_failure \<rparr>)"

definition call_claude_with_retry ::
  "settings \<Rightarrow> string \<Rightarrow> (request \<Rightarrow> nat \<Rightarrow> anthropic_outcome) \<Rightarrow> request \<Rightarrow> int \<Rightarrow> circuit \<Rightarrow> real
     \<Rightarrow> retry_run" where
  "call_claude_with_retry cfg provider create req max_retries st now_failure =
     finish_retry cfg provider ''anthropic'' st now_failure
       (claude_loop cfg (create req) (req_model req) max_retries (nat (max_retries + 1)) 0 None [])"

text \<open>The fail-fast branches of \<open>except urllib.error.HTTPError\<close>.\<close>

definition gemini_fatal :: "int \<Rightarrow> string \<Rightarrow> string \<Rightarrow> string \<Rightarrow> exn option" where
  "gemini_fatal http_code body error_message error_reason =
     (let lower_body = lower body in
      if http_code = 429 \<and>
         (py_in ''resource_exhausted'' lower_body \<or>
          py_in ''exceeded your current quota'' lower_body \<or>
          py_in ''billing'' lower_body)
      then Some (ServiceError
                  (''Gemini quota/billing issue: current key has exhausted quota. '' @
                   ''Enable billing or use a key/project with available quota.'')
                  ''BILLING_ERROR''
                  [(''provider'', JStr ''gemini''), (''status_code'', JInt http_code)])
      else if http_code < 500 \<and> http_code \<noteq> 429 then
        (if error_reason = ''API_KEY_INVALID'' \<or> py_in ''api key expired'' lower_body then
           Some (ServiceError
                  ''Gemini API key is invalid or expired. Create/rotate a valid key and retry.''
                  ''AUTH_ERROR''
                  [(''provider'', JStr ''gemini''), (''status_code'', JInt http_code),
                   (''reason'', JStr (str_or error_reason ''API_KEY_INVALID''))])
         else if py_in ''quota'' lower_body \<or> py_in ''billing'' lower_body \<or>
                 py_in ''resource_exhausted'' lower_body then
           Some (ServiceError
                  ''Gemini billing/quota issue: please enable billing or increase quota.''
                  ''BILLING_ERROR''
                  [(''provider'', JStr ''gemini''), (''status_code'', JInt http_code)])
         else
           Some (ServiceError
                  (''Gemini request failed: '' @
                   str_or error_message ''check API key, model name, and payload.'')
                  ''API_REQUEST_ERROR''
                  [(''provider'', JStr ''gemini''), (''status_code'', JInt http_code),
                   (''reason'', if error_reason \<noteq> [] then JStr error_reason else JNull)]))
      else None)"

text \<open>\<open>usage.get(key, 0)\<close>\<close>

definition usage_get :: "(string \<times> int) list \<Rightarrow> string \<Rightarrow> int" where
  "usage_get u k = (case map_of u k of None \<Rightarrow> 0 | Some v \<Rightarrow> v)"

fun gemini_loop ::
  "settings \<Rightarrow> (nat \<Rightarrow> gemini_outcome) \<Rightarrow> string \<Rightarrow> int \<Rightarrow> nat \<Rightarrow> nat \<Rightarrow> string option \<Rightarrow> real list
     \<Rightarrow> loop_end \<times> nat \<times> real list" where
  "gemini_loop cfg urlopen model max_retries 0 attempt last_error sl =
     (Exhausted last_error, attempt, sl)"
| "gemini_loop cfg urlopen model max_retries (Suc k) attempt last_error sl =
     (case urlopen attempt of
        GeminiResponse parts usage_metadata generation_time \<Rightarrow>
          (Returned \<lparr> content = concat parts,
                      usage = [(''model'', JStr model),
                               (''input_tokens'', JInt (usage_get usage_metadata ''promptTokenCount'')),
                               (''output_tokens'', JInt (usage_get usage_metadata ''candidatesTokenCount'')),
                               (''total_tokens'', JInt (usage_get usage_metadata ''totalTokenCount'')),
                               (''generation_time_seconds'', JNum generation_time),
                               (''retry_count'', JInt (int attempt)),
                               (''provider'', JStr ''gemini'')] \<rparr>,
           Suc attempt, sl)
      | HTTPError http_code body error_message error_reason \<Rightarrow>
          (case gemini_fatal http_code body error_message error_reason of
             Some e \<Rightarrow> (Raised e, Suc attempt, sl)
           | None \<Rightarrow>
               gemini_loop cfg urlopen model max_retries k (Suc attempt)
                 (Some (''HTTP '' @ str_int http_code @ '': '' @ body))
                 (if int attempt < max_retries then sl @ [RETRY_DELAY cfg * 2 ^ attempt] else sl))
      | GeminiException text \<Rightarrow>
          gemini_loop cfg urlopen model max_retries k (Suc attempt) (Some text)
            (if int attempt < max_retries then sl @ [RETRY_DELAY cfg * 2 ^ attempt] else sl))"

definition call_gemini_with_retry ::
  "settings \<Rightarrow> string \<Rightarrow> (request \<Rightarrow> nat \<Rightarrow> gemini_outcome) \<Rightarrow> request \<Rightarrow> int \<Rightarrow> circuit \<Rightarrow> real
     \<Rightarrow> retry_run" where
  "call_gemini_with_retry cfg provider urlopen req max_retries st now_failure =
     finish_retry cfg provider ''gemini'' st now_failure
       (gemini_loop cfg (urlopen req) (req_model req) max_retries (nat (max_retries + 1)) 0 None [])"

text \<open>\<open>_resolve_max_tokens\<close>, \<open>_resolve_retry_count\<close>, \<open>_resolve_timeout_seconds\<close>, \<open>_resolve_model\<close>\<close>

definition resolve_max_tokens :: "settings \<Rightarrow> int \<Rightarrow> string \<Rightarrow> int" where
  "resolve_max_tokens cfg persona_max_tokens speed =
     (if speed = ''fast'' then min persona_max_tokens (FAST_MAX_TOKENS cfg) else persona_max_tokens)"

definition resolve_retry_count :: "settings \<Rightarrow> string \<Rightarrow> int" where
  "resolve_retry_count cfg speed = (if speed = ''fast'' then 0 else MAX_RETRIES cfg)"

definition resolve_timeout_seconds :: "settings \<Rightarrow> string \<Rightarrow> int" where
  "resolve_timeout_seconds cfg speed =
     (if speed = ''fast'' then min (GENERATION_TIMEOUT cfg) (FAST_TIMEOUT cfg) else GENERATION_TIMEOUT cfg)"

definition resolve_model :: "settings \<Rightarrow> string \<Rightarrow> string \<Rightarrow> string" where
  "resolve_model cfg provider speed =
     (if provider = ''anthropic'' then (if speed = ''fast'' then FAST_MODEL cfg else DEFAULT_MODEL cfg)
      else if provider = ''gemini'' then (if speed = ''fast'' then GEMINI_FAST_MODEL cfg else GEMINI_MODEL cfg)
      else DEFAULT_MODEL cfg)"

text \<open>
  What the service reads from outside during one generation: the two provider
  endpoints (the outcome of the call number \<open>attempt\<close> for a request) and the clock
  readings of \<open>_check_circuit_state\<close> and \<open>_record_failure\<close>.
\<close>

record env =
  messages_create :: "request \<Rightarrow> nat \<Rightarrow> anthropic_outcome"
  urlopen :: "request \<Rightarrow> nat \<Rightarrow> gemini_outcome"
  time_check :: real
  time_retry_after :: real
  time_failure :: real

text \<open>
  \<open>result = self._call_..._with_retry(...); self._record_success(); return result\<close>:
  the success is recorded only when the call returned.
\<close>

definition then_record_success :: "string \<Rightarrow> retry_run \<Rightarrow> retry_run" where
  "then_record_success provider r =
     (case result r of
        Inl _ \<Rightarrow> r
      | Inr _ \<Rightarrow> r \<lparr> circuit_after := record_success provider (circuit_after r) \<rparr>)"

text \<open>\<open>_call_model_with_retry\<close>, with \<open>provider\<close> for \<open>self.provider\<close>.\<close>

definition call_model_with_retry ::
  "settings \<Rightarrow> string \<Rightarrow> env \<Rightarrow> circuit \<Rightarrow> string \<Rightarrow> string \<Rightarrow> real \<Rightarrow> int \<Rightarrow> string \<Rightarrow> retry_run" where
  "call_model_with_retry cfg provider ev st system_prompt user_prompt temperature max_tokens speed =
     (case check_circuit_state provider st (time_check ev) (time_retry_after ev) of
        Inl e \<Rightarrow> \<lparr> result = Inl e, calls = 0, sleeps = [], circuit_after = st \<rparr>
      | Inr _ \<Rightarrow>
          (let req = \<lparr> req_model = resolve_model cfg provider speed,
                        req_max_tokens = max_tokens,
                        req_temperature = temperature,
                        req_system = system_prompt,
                        req_user = user_prompt,
                        req_timeout = resolve_timeout_seconds cfg speed \<rparr>
           in
           if provider = ''anthropic'' then
             then_record_success provider
               (call_claude_with_retry cfg provider (messages_create ev) req
                  (resolve_retry_count cfg speed) st (time_failure ev))
           else if provider = ''gemini'' then
             then_record_success provider
               (call_gemini_with_retry cfg provider (urlopen ev) req
                  (resolve_retry_count cfg speed) st (time_failure ev))
           else
             \<lparr> result = Inl (ServiceError
                  (''Unsupported LLM provider '' @ [CHR 0x27] @ provider @ [CHR 0x27])
                  ''INVALID_PROVIDER'' []),
               calls = 0, sleeps = [], circuit_after = st \<rparr>))"

text \<open>
  The outcomes after which the loops go on to the next attempt, and the text that
  \<open>last_error\<close> then holds.
\<close>

definition anthropic_retriable :: "anthropic_outcome \<Rightarrow> bool" where
  "anthropic_retriable out =
     (case out of AnthropicError status_code error_message \<Rightarrow>
                    anthropic_fatal status_code error_message = None
                | _ \<Rightarrow> False)"

definition anthropic_error_text :: "anthropic_outcome \<Rightarrow> string" where
  "anthropic_error_text out =
     (case out of AnthropicError status_code error_message \<Rightarrow> error_message
                | OtherException text \<Rightarrow> text
                | _ \<Rightarrow> [])"

definition gemini_retriable :: "gemini_outcome \<Rightarrow> bool" where
  "gemini_retriable out =
     (case out of HTTPError http_code body error_message error_reason \<Rightarrow>
                    gemini_fatal http_code body error_message error_reason = None
                | GeminiException text \<Rightarrow> True
                | _ \<Rightarrow> False)"

definition gemini_error_text :: "gemini_outcome \<Rightarrow> string" where
  "gemini_error_text out =
     (case out of HTTPError http_code body error_message error_reason \<Rightarrow>
                    ''HTTP '' @ str_int http_code @ '': '' @ body
                | GeminiException text \<Rightarrow> text
                | _ \<Rightarrow> [])"

section \<open>The stored rows\<close>

text \<open>
  Python dictionaries with string keys are association lists in insertion order:
  \<open>d.get(k)\<close> is \<open>map_of d k\<close>, \<open>d[k] = v\<close> replaces the value in place or appends the
  key, and \<open>{**a, **b}\<close> stores the items of \<open>b\<close> into \<open>a\<close> one by one.
\<close>

fun dict_set :: "string \<Rightarrow> 'v \<Rightarrow> (string \<times> 'v) list \<Rightarrow> (string \<times> 'v) list" where
  "dict_set k v [] = [(k, v)]"
| "dict_set k v ((k', v') # d) = (if k' = k then (k, v) # d else (k', v') # dict_set k v d)"

definition dict_merge :: "(string \<times> 'v) list \<Rightarrow> (string \<times> 'v) list \<Rightarrow> (string \<times> 'v) list" where
  "dict_merge a b = fold (\<lambda>(k, v) d. dict_set k v d) b a"

text \<open>\<open>models.py\<close>: \<open>Persona\<close>, \<open>BlogPost\<close> (without its slug and SEO columns),
  \<open>Engagement\<close> and \<open>PostMetric\<close> (its two reaction counters and the view counter).\<close>

record persona =
  persona_id :: nat
  persona_name :: string
  persona_slug :: string
  persona_type :: string
  persona_system_prompt :: string
  persona_description :: string
  persona_temperature :: real
  persona_max_tokens :: int
  persona_top_p :: real
  is_active :: bool
  display_order :: int

datatype post_status = DRAFT | GENERATING | COMPLETED | FAILED

record blog_post =
  title :: string
  topic_input :: string
  raw_prompt :: string
  generated_content :: string
  content_structure :: "(string \<times> jval) list"
  post_persona :: "nat option"
  sources :: "jval list"
  status :: post_status
  sentiment_score :: int
  metadata :: "(string \<times> jval) list"
  published_at :: "real option"

record engagement =
  eng_blog_post_id :: nat
  eng_session_id :: string
  eng_action :: string
  eng_action_value :: int
  eng_metadata :: "(string \<times> jval) list"

record post_metric =
  views_count :: int
  likes_count :: int
  dislikes_count :: int

text \<open>
  The tables. Posts are keyed by their primary key and metrics by the post they belong to
  (a one-to-one field); engagement rows are listed in the model's default ordering
  \<open>-created_at\<close>, the newest first, and a row is identified by its place in the list.
\<close>

record db =
  personas :: "persona list"
  posts :: "nat \<rightharpoonup> blog_post"
  next_post_id :: nat
  engagements :: "engagement list"
  post_metrics :: "nat \<rightharpoonup> post_metric"

section \<open>\<open>EngagementService\<close>\<close>

text \<open>\<open>BaseService.handle_exception\<close>: any exception becomes a \<open>ServiceError\<close> with the
  default code and the context as details.\<close>

definition handle_exception :: "exn \<Rightarrow> (string \<times> jval) list \<Rightarrow> exn" where
  "handle_exception exc context = ServiceError (message exc) ''SERVICE_ERROR'' context"





text \<open>\<open>Engagement.objects.filter(blog_post_id=..., action=...).count()\<close> on the
  engagement table.\<close>

definition count_action :: "engagement list \<Rightarrow> nat \<Rightarrow> string \<Rightarrow> int" where
  "count_action rows blog_post_id action =
     int (length (filter (\<lambda>e. eng_blog_post_id e = blog_post_id \<and> eng_action e = action) rows))"






text \<open>Rows used to run the services on concrete input.\<close>

definition example_post :: blog_post where
  "example_post = \<lparr>
     title = ''Draft: Future of renewable energy...'',
     topic_input = ''Future of renewable energy'',
     raw_prompt = ''prompt'',
     generated_content = [],
     content_structure = [],
     post_persona = Some 1,
     sources = [],
     status = COMPLETED,
     sentiment_score = 0,
     metadata = [],
     published_at = None \<rparr>"

definition example_persona :: persona where
  "example_persona = \<lparr>
     persona_id = 1,
     persona_name = ''Technical Writer'',
     persona_slug = ''technical'',
     persona_type = ''technical'',
     persona_system_prompt = ''Write clearly'',
     persona_description = ''Technical persona'',
     persona_temperature = 7 / 10,
     persona_max_tokens = 4000,
     persona_top_p = 9 / 10,
     is_active = True,
     display_order = 0 \<rparr>"

definition example_db :: db where
  "example_db = \<lparr>
     personas = [example_persona],
     posts = [1 \<mapsto> example_post],
     next_post_id = 2,
     engagements = [],
     post_metrics = Map.empty \<rparr>"

section \<open>\<open>PromptService\<close>\<close>

text \<open>\<open>str.replace(old, new)\<close>\<close>

fun replace :: "string \<Rightarrow> string \<Rightarrow> string \<Rightarrow> string" where
  "replace old new [] = (if old = [] then new else [])"
| "replace old new (c # cs) =
     (if old = [] then new @ c # replace old new cs
      else if prefix old (c # cs) then new @ replace old new (drop (length old) (c # cs))
      else c # replace old new cs)"

text \<open>
  The four texts of \<open>PERSONA_SYSTEM_PROMPTS\<close> are taken as given (one of them has a
  code point beyond 255); the lookup falls back to the technical one.
\<close>

record persona_system_prompts =
  technical_prompt :: string
  narrative_prompt :: string
  analyst_prompt :: string
  educator_prompt :: string

definition get_system_prompt :: "persona_system_prompts \<Rightarrow> string \<Rightarrow> string" where
  "get_system_prompt ps ptype =
     (if ptype = ''technical'' then technical_prompt ps
      else if ptype = ''narrative'' then narrative_prompt ps
      else if ptype = ''analyst'' then analyst_prompt ps
      else if ptype = ''educator'' then educator_prompt ps
      else technical_prompt ps)"

text \<open>\<open>_get_persona_custom_variables\<close>: the one variable \<open>style_guidance\<close>.\<close>

definition style_guidance :: "persona \<Rightarrow> string" where
  "style_guidance p =
     (if persona_type p = ''technical'' then
        ''Use code blocks for technical examples. Define technical terms on first use.''
      else if persona_type p = ''narrative'' then
        ''Use storytelling elements. Include personal anecdotes or hypothetical scenarios.''
      else if persona_type p = ''analyst'' then
        ''Include data points. Reference industry reports. Provide numerical comparisons.''
      else if persona_type p = ''educator'' then
        ''Explain terms simply. Use 'imagine' scenarios. Include learning checks.''
      else ''Write in a clear, engaging style.'')"

definition get_persona_custom_variables :: "persona \<Rightarrow> (string \<times> string) list" where
  "get_persona_custom_variables p = [(''style_guidance'', style_guidance p)]"

definition inject_persona_variables :: "string \<Rightarrow> persona \<Rightarrow> string" where
  "inject_persona_variables base_prompt p =
     (let custom_vars =
            (if persona_system_prompt p \<noteq> []
             then dict_set ''custom_instructions'' (persona_system_prompt p)
                    (get_persona_custom_variables p)
             else get_persona_custom_variables p);
          injected =
            fold (\<lambda>(key, value) bp.
                    let placeholder = ''{{'' @ key @ ''}}''
                    in if py_in placeholder bp then replace placeholder value bp else bp)
                 custom_vars base_prompt
      in if persona_system_prompt p \<noteq> []
         then injected @ ''\<newline>\<newline>Additional Instructions:\<newline>'' @ persona_system_prompt p
         else injected)"

text \<open>
  The sentence that the last block of \<open>USER_PROMPT_TEMPLATE\<close> holds, and the template
  itself as Jinja renders it with its default whitespace handling: a tag leaves the line
  break after it in place and the one line break that ends the template is dropped. The
  additional context is given with the text of each value.
\<close>

definition sources_directive :: string where
  \<open>sources_directive =
     ''After the main content, include a "## Sources" section listing all references.''\<close>

definition render_template ::
  "string \<Rightarrow> (string \<times> string) list \<Rightarrow> int \<Rightarrow> int \<Rightarrow> string \<Rightarrow> bool \<Rightarrow> bool \<Rightarrow> string" where
  "render_template topic context min_words max_words guidance include_sources is_fast =
     ''\<newline>Write a comprehensive blog post about: '' @ topic @ ''\<newline>\<newline>'' @
     (if context \<noteq> [] then
        ''\<newline>Additional context to consider:\<newline>'' @
        concat (map (\<lambda>(key, value). ''\<newline>- '' @ key @ '': '' @ value @ ''\<newline>'') context) @
        ''\<newline>''
      else []) @
     ''\<newline>\<newline>Requirements:\<newline>'' @
     ''- Length: '' @ str_int min_words @ ''-'' @ str_int max_words @ '' words\<newline>'' @
     ''- Include a compelling, descriptive headline\<newline>'' @
     ''- Use markdown formatting (## for subheadings, ** for emphasis)\<newline>'' @
     ''- End with a summary paragraph of key takeaways\<newline>'' @
     ''- If specific sources are referenced, format as [Source Name](url)\<newline>'' @
     ''- '' @ guidance @ ''\<newline>'' @
     (if is_fast then
        ''\<newline>- Optimize for speed: keep the response concise and focused.\<newline>''
      else []) @
     ''\<newline>\<newline>'' @
     (if include_sources then ''\<newline>'' @ sources_directive @ ''\<newline>'' else [])"

definition render_user_prompt ::
  "settings \<Rightarrow> string \<Rightarrow> persona \<Rightarrow> (string \<times> string) list \<Rightarrow> string \<Rightarrow> string" where
  "render_user_prompt cfg topic p additional_context speed =
     (let is_fast = (speed = ''fast'');
          min_words = (if is_fast then FAST_MIN_WORDS cfg else NORMAL_MIN_WORDS cfg);
          max_words = (if is_fast then FAST_MAX_WORDS cfg else NORMAL_MAX_WORDS cfg)
      in render_template topic additional_context min_words max_words
           (case map_of (get_persona_custom_variables p) ''style_guidance'' of
              None \<Rightarrow> [] | Some g \<Rightarrow> g)
           (\<not> is_fast) is_fast)"

definition build_generation_prompt ::
  "settings \<Rightarrow> persona_system_prompts \<Rightarrow> string \<Rightarrow> persona \<Rightarrow> (string \<times> string) list \<Rightarrow> string
     \<Rightarrow> string \<times> string" where
  "build_generation_prompt cfg ps topic p additional_context speed =
     (inject_persona_variables (get_system_prompt ps (persona_type p)) p,
      render_user_prompt cfg topic p additional_context speed)"

section \<open>The response parser\<close>

text \<open>
  \<open>str.isspace()\<close>, which is also what \<open>\s\<close> matches, \<open>str.strip()\<close> strips and
  \<open>str.split()\<close> splits at, on the code points below 256.
\<close>

definition isspace :: "char \<Rightarrow> bool" where
  "isspace c = ((of_char c :: nat) \<in> {9, 10, 11, 12, 13, 28, 29, 30, 31, 32, 133, 160})"

text \<open>
  The regular expressions of the parser. A pattern is a sequence of nodes: one character
  of a class, a repetition of a character class (\<open>lo\<close>, optional \<open>hi\<close>, greedy or
  lazy), an alternation of sequences, a capturing group, a lookahead, and the anchors
  \<open>^\<close> and \<open>$\<close> under \<open>re.MULTILINE\<close> and \<open>$\<close> without it. \<open>.\<close> is
  \<open>AnyChar\<close> under \<open>re.DOTALL\<close> and \<open>NotNewline\<close> otherwise; the boolean
  \<open>ic\<close> is \<open>re.IGNORECASE\<close>. \<open>Close\<close> marks the end of an open group while matching.
\<close>

datatype cset = AnyChar | NotNewline | Space | Lit char | NotIn "char list"

fun cmatch :: "bool \<Rightarrow> cset \<Rightarrow> char \<Rightarrow> bool" where
  "cmatch ic AnyChar c = True"
| "cmatch ic NotNewline c = (c \<noteq> CHR ''\<newline>'')"
| "cmatch ic Space c = isspace c"
| "cmatch ic (Lit l) c = (if ic then lower_char c = lower_char l else c = l)"
| "cmatch ic (NotIn ls) c = (if ic then lower_char c \<notin> lower_char ` set ls else c \<notin> set ls)"

datatype node =
    Chr cset
  | Rep cset nat "nat option" bool
  | Alt "node list list"
  | Group nat "node list"
  | Close nat nat
  | Look "node list"
  | Bol
  | Eol_multiline
  | Eol

definition dec :: "nat option \<Rightarrow> nat option" where
  "dec hi = map_option (\<lambda>h. h - 1) hi"

type_synonym captures = "(nat \<times> string) list"

text \<open>
  The backtracking matcher: \<open>match_at ic nodes pre s caps\<close> matches the node sequence at the
  current position, \<open>pre\<close> being the text before it in reverse and \<open>s\<close> the text
  from it on, and returns the first match in the order in which \<open>re\<close> tries the
  alternatives (left to right, greedy repetitions longest first, lazy ones shortest first).
\<close>

fun match_at :: "bool \<Rightarrow> node list \<Rightarrow> string \<Rightarrow> string \<Rightarrow> captures \<Rightarrow> (string \<times> string \<times> captures) option" where
  "match_at ic [] pre s caps = Some (pre, s, caps)"
| "match_at ic (Chr cs # ns) pre [] caps = None"
| "match_at ic (Chr cs # ns) pre (c # s) caps = (if cmatch ic cs c then match_at ic ns (c # pre) s caps else None)"
| "match_at ic (Rep cs lo hi greedy # ns) pre [] caps = (if lo = 0 then match_at ic ns pre [] caps else None)"
| "match_at ic (Rep cs lo hi greedy # ns) pre (c # s) caps =
     (if hi = Some 0 \<or> \<not> cmatch ic cs c then (if lo = 0 then match_at ic ns pre (c # s) caps else None)
      else if lo > 0 then match_at ic (Rep cs (lo - 1) (dec hi) greedy # ns) (c # pre) s caps
      else if greedy then
        (case match_at ic (Rep cs 0 (dec hi) greedy # ns) (c # pre) s caps of
           Some r \<Rightarrow> Some r
         | None \<Rightarrow> match_at ic ns pre (c # s) caps)
      else
        (case match_at ic ns pre (c # s) caps of
           Some r \<Rightarrow> Some r
         | None \<Rightarrow> match_at ic (Rep cs 0 (dec hi) greedy # ns) (c # pre) s caps))"
| "match_at ic (Alt [] # ns) pre s caps = None"
| "match_at ic (Alt (a # alts) # ns) pre s caps =
     (case match_at ic (a @ ns) pre s caps of
        Some r \<Rightarrow> Some r
      | None \<Rightarrow> match_at ic (Alt alts # ns) pre s caps)"
| "match_at ic (Group k body # ns) pre s caps = match_at ic (body @ Close k (length pre) # ns) pre s caps"
| "match_at ic (Close k start # ns) pre s caps =
     match_at ic ns pre s ((k, rev (take (length pre - start) pre)) # caps)"
| "match_at ic (Look body # ns) pre s caps =
     (case match_at ic body pre s caps of
        None \<Rightarrow> None
      | Some (_, _, caps') \<Rightarrow> match_at ic ns pre s caps')"
| "match_at ic (Bol # ns) pre s caps =
     (if pre = [] \<or> hd pre = CHR ''\<newline>'' then match_at ic ns pre s caps else None)"
| "match_at ic (Eol_multiline # ns) pre s caps =
     (if s = [] \<or> hd s = CHR ''\<newline>'' then match_at ic ns pre s caps else None)"
| "match_at ic (Eol # ns) pre s caps =
     (if s = [] \<or> s = ''\<newline>'' then match_at ic ns pre s caps else None)"

text \<open>
  A match: the text before its start and the text up to its end (both in reverse), the
  text after its end, and the match_groups.
\<close>

record re_match =
  match_before :: string
  match_upto :: string
  match_rest :: string
  match_groups :: captures

text \<open>\<open>re.search\<close>: the first position, from the left, at which the pattern matches.\<close>

fun re_search :: "bool \<Rightarrow> node list \<Rightarrow> string \<Rightarrow> string \<Rightarrow> re_match option" where
  "re_search ic p pre [] =
     (case match_at ic p pre [] [] of
        None \<Rightarrow> None
      | Some (pre', s', caps) \<Rightarrow> Some \<lparr> match_before = pre, match_upto = pre', match_rest = s', match_groups = caps \<rparr>)"
| "re_search ic p pre (c # s) =
     (case match_at ic p pre (c # s) [] of
        None \<Rightarrow> re_search ic p (c # pre) s
      | Some (pre', s', caps) \<Rightarrow> Some \<lparr> match_before = pre, match_upto = pre', match_rest = s', match_groups = caps \<rparr>)"

definition group :: "re_match \<Rightarrow> nat \<Rightarrow> string" where
  "group m k = (case map_of (match_groups m) k of None \<Rightarrow> [] | Some g \<Rightarrow> g)"

text \<open>
  \<open>re.findall\<close> and \<open>re.sub\<close>: the successive non-overlapping matches, each search
  going on where the last match ended (one character further after an empty match).
\<close>

function re_findall :: "bool \<Rightarrow> node list \<Rightarrow> string \<Rightarrow> string \<Rightarrow> re_match list" where
  "re_findall ic p pre s =
     (case re_search ic p pre s of
        None \<Rightarrow> []
      | Some m \<Rightarrow>
          m # (if length (match_rest m) < length s then re_findall ic p (match_upto m) (match_rest m)
               else (case s of [] \<Rightarrow> [] | c # s' \<Rightarrow> re_findall ic p (c # pre) s')))"
  by pat_completeness auto
termination
  by (relation "measure (\<lambda>(ic, p, pre, s). length s)") auto

declare re_findall.simps [simp del]

function re_sub :: "bool \<Rightarrow> node list \<Rightarrow> string \<Rightarrow> string \<Rightarrow> string \<Rightarrow> string" where
  "re_sub ic p repl pre s =
     (case re_search ic p pre s of
        None \<Rightarrow> s
      | Some m \<Rightarrow>
          rev (take (length (match_before m) - length pre) (match_before m)) @ repl @
          (if length (match_rest m) < length s then re_sub ic p repl (match_upto m) (match_rest m)
           else (case s of [] \<Rightarrow> [] | c # s' \<Rightarrow> c # re_sub ic p repl (c # pre) s')))"
  by pat_completeness auto
termination
  by (relation "measure (\<lambda>(ic, p, repl, pre, s). length s)") auto

declare re_sub.simps [simp del]

text \<open>
  The patterns of \<open>generation.py\<close>:
  \<^verbatim>\<open>^#\s+(.+)$\<close> (MULTILINE),
  \<^verbatim>\<open>##\s*(?:Sources|References|Citations)\s*\n+(.*?)(?=\n##|\n\n*$)\<close> and
  \<^verbatim>\<open>##\s*(?:Sources|References|Citations).*?(?=\n##|\n\n*$)\<close> (DOTALL, IGNORECASE),
  \<^verbatim>\<open>\[([^\]]+)\]\(([^\)]+)\)\<close>, and
  \<^verbatim>\<open>^(#{1,3})\s+(.+)$\<close> (MULTILINE).
\<close>

definition lits :: "string \<Rightarrow> node list" where
  "lits s = map (\<lambda>c. Chr (Lit c)) s"

definition title_pattern :: "node list" where
  "title_pattern =
     [Bol, Chr (Lit CHR ''#''), Rep Space 1 None True,
      Group 1 [Rep NotNewline 1 None True], Eol_multiline]"

definition section_end :: node where
  "section_end =
     Look [Alt [[Chr (Lit CHR ''\<newline>''), Chr (Lit CHR ''#''), Chr (Lit CHR ''#'')],
                [Chr (Lit CHR ''\<newline>''), Rep (Lit CHR ''\<newline>'') 0 None True, Eol]]]"

definition section_heading :: "node list" where
  "section_heading =
     [Chr (Lit CHR ''#''), Chr (Lit CHR ''#''), Rep Space 0 None True,
      Alt [lits ''Sources'', lits ''References'', lits ''Citations'']]"

definition sources_pattern :: "node list" where
  "sources_pattern =
     section_heading @
     [Rep Space 0 None True, Rep (Lit CHR ''\<newline>'') 1 None True,
      Group 1 [Rep AnyChar 0 None False], section_end]"

definition strip_pattern :: "node list" where
  "strip_pattern = section_heading @ [Rep AnyChar 0 None False, section_end]"

definition citation_pattern :: "node list" where
  "citation_pattern =
     [Chr (Lit CHR ''[''), Group 1 [Rep (NotIn '']'') 1 None True], Chr (Lit CHR '']''),
      Chr (Lit CHR ''(''), Group 2 [Rep (NotIn '')'') 1 None True], Chr (Lit CHR '')'')]"

definition heading_pattern :: "node list" where
  "heading_pattern =
     [Bol, Group 1 [Rep (Lit CHR ''#'') 1 (Some 3) True], Rep Space 1 None True,
      Group 2 [Rep NotNewline 1 None True], Eol_multiline]"

text \<open>\<open>str.strip()\<close> and \<open>str.split()\<close>\<close>

definition strip :: "string \<Rightarrow> string" where
  "strip s = rev (dropWhile isspace (rev (dropWhile isspace s)))"

fun split_acc :: "string \<Rightarrow> string \<Rightarrow> string list" where
  "split_acc cur [] = (if cur = [] then [] else [rev cur])"
| "split_acc cur (c # s) =
     (if isspace c then (if cur = [] then split_acc [] s else rev cur # split_acc [] s)
      else split_acc (c # cur) s)"

definition split :: "string \<Rightarrow> string list" where
  "split s = split_acc [] s"

text \<open>
  \<open>urlparse(url).netloc\<close> of \<open>urllib.parse\<close>: leading control characters and spaces
  are stripped, tabs and line breaks removed, a scheme is split off, and the text between
  a leading \<open>//\<close> and the next \<open>/\<close>, \<open>?\<close> or \<open>#\<close> is the netloc. A netloc with only
  one of the two square brackets raises \<open>ValueError\<close>; whether one with both is accepted
  (\<open>bracketed_ok\<close>) depends on the version of the library and is taken as given.
\<close>

definition scheme_char :: "char \<Rightarrow> bool" where
  "scheme_char c =
     (let n = (of_char c :: nat) in
      (97 \<le> n \<and> n \<le> 122) \<or> (65 \<le> n \<and> n \<le> 90) \<or> (48 \<le> n \<and> n \<le> 57) \<or>
      c = CHR ''+'' \<or> c = CHR ''-'' \<or> c = CHR ''.'')"

definition ascii_alpha :: "char \<Rightarrow> bool" where
  "ascii_alpha c = (let n = (of_char c :: nat) in (97 \<le> n \<and> n \<le> 122) \<or> (65 \<le> n \<and> n \<le> 90))"

definition drop_scheme :: "string \<Rightarrow> string" where
  "drop_scheme url =
     (let head = takeWhile (\<lambda>c. c \<noteq> CHR '':'') url in
      if head \<noteq> url \<and> head \<noteq> [] \<and> ascii_alpha (hd url) \<and> list_all scheme_char head
      then drop (Suc (length head)) url else url)"

definition urlparse_netloc :: "(string \<Rightarrow> bool) \<Rightarrow> string \<Rightarrow> exn + string" where
  "urlparse_netloc bracketed_ok url0 =
     (let url1 = dropWhile (\<lambda>c. (of_char c :: nat) \<le> 32) url0;
          url2 = filter (\<lambda>c. c \<notin> {CHR 0x09, CHR 0x0D, CHR ''\<newline>''}) url1;
          url3 = drop_scheme url2
      in if take 2 url3 = ''//'' then
           (let netloc = takeWhile (\<lambda>c. c \<notin> {CHR ''/'', CHR ''?'', CHR ''#''}) (drop 2 url3) in
            if (CHR ''['' \<in> set netloc \<and> CHR '']'' \<notin> set netloc) \<or>
               (CHR '']'' \<in> set netloc \<and> CHR ''['' \<notin> set netloc)
            then Inl (PyException ''Invalid IPv6 URL'')
            else if CHR ''['' \<in> set netloc \<and> CHR '']'' \<in> set netloc \<and> \<not> bracketed_ok netloc
            then Inl (PyException ''Invalid IPv6 URL'')
            else Inr netloc)
         else Inr [])"

text \<open>\<open>_parse_sources\<close>: the loop over the citation matches, then the function.\<close>

fun parse_citations :: "(string \<Rightarrow> bool) \<Rightarrow> re_match list \<Rightarrow> exn + jval list" where
  "parse_citations bracketed_ok [] = Inr []"
| "parse_citations bracketed_ok (m # ms) =
     (case urlparse_netloc bracketed_ok (group m 2) of
        Inl e \<Rightarrow> Inl e
      | Inr netloc \<Rightarrow>
          (case parse_citations bracketed_ok ms of
             Inl e \<Rightarrow> Inl e
           | Inr srcs \<Rightarrow>
               Inr (JObj [(''title'', JStr (strip (group m 1))),
                          (''url'', JStr (strip (group m 2))),
                          (''domain'', JStr (replace ''www.'' [] netloc)),
                          (''is_verified'', JBool False),
                          (''relevance_score'', JNull)] # srcs)))"

definition parse_sources :: "(string \<Rightarrow> bool) \<Rightarrow> string \<Rightarrow> exn + jval list" where
  "parse_sources bracketed_ok sources_text =
     parse_citations bracketed_ok (re_findall False citation_pattern [] sources_text)"

text \<open>\<open>_analyze_structure\<close>\<close>

definition analyze_structure :: "string \<Rightarrow> (string \<times> jval) list" where
  "analyze_structure markdown =
     (let headings = re_findall False heading_pattern [] markdown;
          word_count = int (length (split markdown))
      in [(''word_count'', JInt word_count),
          (''heading_count'', JInt (int (length headings))),
          (''reading_time_minutes'', JInt (max 1 (word_count div 200))),
          (''headings'', JArr (map (\<lambda>h. JObj [(''level'', JStr (group h 1)),
                                                (''text'', JStr (group h 2))]) headings))])"

text \<open>\<open>_parse_response\<close> and the dictionary it returns.\<close>

record parsed =
  markdown :: string
  parsed_sources :: "jval list"
  parsed_title :: "string option"
  parsed_structure :: "(string \<times> jval) list"

definition parse_response :: "(string \<Rightarrow> bool) \<Rightarrow> string \<Rightarrow> exn + parsed" where
  "parse_response bracketed_ok raw_content =
     (let title = (case re_search False title_pattern [] raw_content of
                     None \<Rightarrow> None
                   | Some m \<Rightarrow> Some (strip (group m 1)))
      in case re_search True sources_pattern [] raw_content of
           None \<Rightarrow>
             Inr \<lparr> markdown = raw_content, parsed_sources = [], parsed_title = title,
                   parsed_structure = analyze_structure raw_content \<rparr>
         | Some section \<Rightarrow>
             (case parse_sources bracketed_ok (group section 1) of
                Inl e \<Rightarrow> Inl e
              | Inr srcs \<Rightarrow>
                  (let md = strip (re_sub True strip_pattern [] [] raw_content)
                   in Inr \<lparr> markdown = md, parsed_sources = srcs, parsed_title = title,
                            parsed_structure = analyze_structure md \<rparr>)))"

text \<open>\<open>SourceReference.save\<close>: the domain is derived only when none is given.\<close>

definition source_reference_save_domain :: "(string \<Rightarrow> bool) \<Rightarrow> string \<Rightarrow> string \<Rightarrow> exn + string" where
  "source_reference_save_domain bracketed_ok url domain =
     (if url \<noteq> [] \<and> domain = [] then
        (case urlparse_netloc bracketed_ok url of
           Inl e \<Rightarrow> Inl e
         | Inr netloc \<Rightarrow> Inr (replace ''www.'' [] netloc))
      else Inr domain)"

section \<open>\<open>BlogGenerationService.generate_post\<close>\<close>

definition validate_generation_input :: "string \<Rightarrow> string \<Rightarrow> exn + unit" where
  "validate_generation_input topic slug =
     (if topic = [] \<or> length (strip topic) < 5 then
        Inl (ServiceError ''Topic must be at least 5 characters long'' ''INVALID_TOPIC'' [])
      else if slug = [] then
        Inl (ServiceError ''Persona slug is required'' ''INVALID_PERSONA'' [])
      else Inr ())"

text \<open>\<open>Persona.objects.get(slug=slug, is_active=True)\<close> inside \<open>_get_persona\<close>.\<close>

definition get_persona :: "db \<Rightarrow> string \<Rightarrow> exn + persona" where
  "get_persona d slug =
     (case filter (\<lambda>p. persona_slug p = slug \<and> is_active p) (personas d) of
        [] \<Rightarrow> Inl (ServiceError (''Active persona '' @ [CHR 0x27] @ slug @ [CHR 0x27] @ '' not found'')
                    ''PERSONA_NOT_FOUND'' [])
      | [p] \<Rightarrow> Inr p
      | _ \<Rightarrow> Inl (PyException ''get() returned more than one Persona''))"

text \<open>
  \<open>_create_post_record\<close>: the new row gets the next primary key. The slug column and
  the loop that makes it unique are left out.
\<close>

definition create_post_record :: "db \<Rightarrow> string \<Rightarrow> persona \<Rightarrow> string \<Rightarrow> nat \<times> blog_post \<times> db" where
  "create_post_record d topic p prompt =
     (let post = \<lparr> title = ''Draft: '' @ take 50 topic @ ''...'',
                    topic_input = topic,
                    raw_prompt = prompt,
                    generated_content = [],
                    content_structure = [],
                    post_persona = Some (persona_id p),
                    sources = [],
                    status = GENERATING,
                    sentiment_score = 0,
                    metadata = [],
                    published_at = None \<rparr>
      in (next_post_id d, post,
          d \<lparr> posts := (posts d)(next_post_id d \<mapsto> post), next_post_id := Suc (next_post_id d) \<rparr>))"

text \<open>
  \<open>_update_post_with_content\<close>, on the post object \<open>blog_post\<close> with primary key
  \<open>pk\<close>: the fields are set, the row is saved, and \<open>update_sentiment_score\<close> recomputes
  the score from the engagement rows and saves that column. The title is looked up in
  the \<open>structure\<close> argument.
\<close>

definition update_post_with_content ::
  "db \<Rightarrow> nat \<Rightarrow> blog_post \<Rightarrow> string \<Rightarrow> jval list \<Rightarrow> (string \<times> jval) list \<Rightarrow> (string \<times> jval) list \<Rightarrow> real
     \<Rightarrow> blog_post \<times> db" where
  "update_post_with_content d pk blog_post content_text srcs struct md now =
     (let p1 = blog_post \<lparr> generated_content := content_text, sources := srcs,
                            content_structure := struct \<rparr>;
          p2 = (case map_of struct ''title'' of
                  Some (JStr t) \<Rightarrow> if t \<noteq> [] then p1 \<lparr> title := take 300 t \<rparr> else p1
                | _ \<Rightarrow> p1);
          p3 = p2 \<lparr> metadata := dict_merge (metadata p2) md, status := COMPLETED,
                     published_at := Some now \<rparr>;
          d1 = d \<lparr> posts := (posts d)(pk \<mapsto> p3) \<rparr>;
          p4 = p3 \<lparr> sentiment_score := count_action (engagements d1) pk ''like''
                                       - count_action (engagements d1) pk ''dislike'' \<rparr>
      in (p4, d1 \<lparr> posts := (posts d1)(pk \<mapsto> p4) \<rparr>))"

text \<open>
  The two \<open>except\<close> clauses of \<open>generate_post\<close> once the post object exists: what is
  saved, and what is raised to the caller.
\<close>

definition mark_failed :: "db \<Rightarrow> nat \<Rightarrow> blog_post \<Rightarrow> exn \<Rightarrow> db" where
  "mark_failed d pk blog_post e =
     (case e of
        ServiceError _ _ _ \<Rightarrow>
          d \<lparr> posts := (posts d)(pk \<mapsto> blog_post \<lparr> status := FAILED \<rparr>) \<rparr>
      | PyException text \<Rightarrow>
          d \<lparr> posts := (posts d)(pk \<mapsto>
                 blog_post \<lparr> status := FAILED,
                             metadata := dict_set ''error'' (JStr text) (metadata blog_post) \<rparr>) \<rparr>)"

definition reraise :: "exn \<Rightarrow> (string \<times> jval) list \<Rightarrow> exn" where
  "reraise e context =
     (case e of ServiceError _ _ _ \<Rightarrow> e | PyException _ \<Rightarrow> handle_exception e context)"

record generation =
  gen_success :: bool
  gen_blog_post_id :: nat
  gen_status :: string
  gen_content :: string
  gen_sources :: "jval list"
  gen_metadata :: "(string \<times> jval) list"

text \<open>
  \<open>generate_post\<close>: the returned dictionary or the raised error, with the tables and the
  circuit-breaker state afterwards. \<open>now\<close> is \<open>timezone.now()\<close>.
\<close>

definition generate_post ::
  "settings \<Rightarrow> string \<Rightarrow> persona_system_prompts \<Rightarrow> (string \<Rightarrow> bool) \<Rightarrow> env \<Rightarrow> real \<Rightarrow> db \<Rightarrow> circuit
     \<Rightarrow> string \<Rightarrow> string \<Rightarrow> (string \<times> string) list \<Rightarrow> string
     \<Rightarrow> (exn + generation) \<times> db \<times> circuit" where
  "generate_post cfg provider ps bracketed_ok ev now d st topic slug additional_context speed =
     (let context = [(''topic'', JStr topic), (''persona'', JStr slug)] in
      case validate_generation_input topic slug of
        Inl e \<Rightarrow> (Inl (reraise e context), d, st)
      | Inr _ \<Rightarrow>
          (case get_persona d slug of
             Inl e \<Rightarrow> (Inl (reraise e context), d, st)
           | Inr p \<Rightarrow>
               (let (system_prompt, user_prompt) =
                      build_generation_prompt cfg ps topic p additional_context speed;
                    (pk, blog_post, d1) = create_post_record d topic p user_prompt;
                    r = call_model_with_retry cfg provider ev st system_prompt user_prompt
                          (persona_temperature p)
                          (resolve_max_tokens cfg (persona_max_tokens p) speed) speed
                in case result r of
                     Inl e \<Rightarrow>
                       (Inl (reraise e context), mark_failed d1 pk blog_post e, circuit_after r)
                   | Inr response_data \<Rightarrow>
                       (case parse_response bracketed_ok (content response_data) of
                          Inl e \<Rightarrow>
                            (Inl (reraise e context), mark_failed d1 pk blog_post e, circuit_after r)
                        | Inr parsed_content \<Rightarrow>
                            (let (saved, d2) =
                                   update_post_with_content d1 pk blog_post
                                     (markdown parsed_content) (parsed_sources parsed_content)
                                     (parsed_structure parsed_content) (usage response_data) now
                             in (Inr \<lparr> gen_success = True, gen_blog_post_id = pk,
                                       gen_status = ''completed'',
                                       gen_content = markdown parsed_content,
                                       gen_sources = parsed_sources parsed_content,
                                       gen_metadata = metadata saved \<rparr>,
                                 d2, circuit_after r))))))"




text \<open>
  Three providers to run \<open>generate_post\<close> against: a Gemini endpoint that rejects the
  API key (HTTP 400 with reason \<open>API_KEY_INVALID\<close>), an Anthropic endpoint that answers
  with a titled post, and one that answers with a sources section whose citation URL has
  an unmatched square bracket.
\<close>

definition auth_failure_env :: env where
  "auth_failure_env = \<lparr>
     messages_create = (\<lambda>_ _. OtherException ''not configured''),
     urlopen = (\<lambda>_ _. HTTPError 400 ''{}'' [] ''API_KEY_INVALID''),
     time_check = 100, time_retry_after = 100, time_failure = 101 \<rparr>"

definition titled_answer_env :: env where
  "titled_answer_env = \<lparr>
     messages_create = (\<lambda>_ _. Message [''# My Title\<newline>\<newline>Body text.''] 10 20 (3 / 2)),
     urlopen = (\<lambda>_ _. GeminiException ''not configured''),
     time_check = 100, time_retry_after = 100, time_failure = 101 \<rparr>"

definition bracket_answer_env :: env where
  "bracket_answer_env = \<lparr>
     messages_create = (\<lambda>_ _. Message [''## Sources\<newline>[a](http://[x)\<newline>''] 10 20 (3 / 2)),
     urlopen = (\<lambda>_ _. GeminiException ''not configured''),
     time_check = 100, time_retry_after = 100, time_failure = 101 \<rparr>"

section \<open>Properties of the circuit breaker\<close>

lemma get_state_record_failure:
  "get_state (record_failure cfg p st now) p =
     \<lparr> failures = failures (get_state st p) + 1,
       open_until = (if failures (get_state st p) + 1 \<ge> CIRCUIT_FAILURE_THRESHOLD cfg
                     then now + of_int (CIRCUIT_COOL_OFF_SECONDS cfg)
                     else open_until (get_state st p)) \<rparr>"
  by (simp add: record_failure_def get_state_def Let_def)

lemma failures_record_failures:
  "failures (get_state (record_failures cfg p st ts) p) = failures (get_state st p) + int (length ts)"
  unfolding record_failures_def
  by (induction ts arbitrary: st) (simp_all add: get_state_record_failure)

lemma record_failures_snoc:
  "record_failures cfg p st (ts @ [t]) = record_failure cfg p (record_failures cfg p st ts) t"
  by (simp add: record_failures_def)

lemma open_until_below_threshold:
  "failures (get_state st p) + int (length ts) < CIRCUIT_FAILURE_THRESHOLD cfg \<Longrightarrow>
   open_until (get_state (record_failures cfg p st ts) p) = open_until (get_state st p)"
proof (induction ts rule: rev_induct)
  case Nil
  then show ?case by (simp add: record_failures_def)
next
  case (snoc t ts)
  then show ?case
    by (simp add: record_failures_snoc get_state_record_failure failures_record_failures)
qed

lemma open_until_at_threshold:
  assumes "ts \<noteq> []"
    and "failures (get_state st p) + int (length ts) \<ge> CIRCUIT_FAILURE_THRESHOLD cfg"
  shows "open_until (get_state (record_failures cfg p st ts) p)
           = last ts + of_int (CIRCUIT_COOL_OFF_SECONDS cfg)"
proof -
  from assms(1) obtain us t where ts: "ts = us @ [t]"
    by (metis rev_exhaust)
  with assms(2) show ?thesis
    by (simp add: record_failures_snoc get_state_record_failure failures_record_failures)
qed

lemma check_circuit_state_Inr:
  "(check_circuit_state p st now later = Inr ()) = (open_until (get_state st p) \<le> now)"
  by (simp add: check_circuit_state_def Let_def)

lemma check_circuit_state_Inl:
  "open_until (get_state st p) > now \<Longrightarrow>
   \<exists>m r. check_circuit_state p st now later =
     Inl (ServiceError m ''PROVIDER_UNAVAILABLE''
            [(''provider'', JStr p), (''retry_after_seconds'', JInt r)]) \<and> 1 \<le> r"
  by (simp add: check_circuit_state_def Let_def)

lemma get_state_record_success:
  "get_state (record_success p st) p = closed_state"
  by (auto simp: record_success_def get_state_def split: option.splits)

text \<open>
  C3. Starting from the closed state of a provider, after exactly
  \<open>CIRCUIT_FAILURE_THRESHOLD\<close> consecutive \<open>_record_failure\<close> calls (at least one,
  the last at clock reading \<open>last ts\<close>) the check raises \<open>PROVIDER_UNAVAILABLE\<close>
  for that provider at every clock reading before \<open>last ts + CIRCUIT_COOL_OFF_SECONDS\<close>
  and passes from then on; with fewer failures the breaker has not opened; and one
  \<open>_record_success\<close> in any state puts the provider back to failure count 0 and
  \<open>open_until = 0.0\<close>, so that the check passes at once (clock readings are
  non-negative).
\<close>

theorem circuit_breaker_opens_at_threshold_and_resets:
  assumes "get_state st p = closed_state"
    and "ts \<noteq> []"
    and "int (length ts) = CIRCUIT_FAILURE_THRESHOLD cfg"
    and "0 \<le> now"
  shows "(now < last ts + of_int (CIRCUIT_COOL_OFF_SECONDS cfg) \<longrightarrow>
            (\<exists>m r. check_circuit_state p (record_failures cfg p st ts) now later =
               Inl (ServiceError m ''PROVIDER_UNAVAILABLE''
                      [(''provider'', JStr p), (''retry_after_seconds'', JInt r)])))
       \<and> (last ts + of_int (CIRCUIT_COOL_OFF_SECONDS cfg) \<le> now \<longrightarrow>
            check_circuit_state p (record_failures cfg p st ts) now later = Inr ())
       \<and> check_circuit_state p (record_failures cfg p st (butlast ts)) now later = Inr ()
       \<and> get_state (record_success p st') p = \<lparr> failures = 0, open_until = 0 \<rparr>
       \<and> check_circuit_state p (record_success p st') now later = Inr ()"
proof -
  have f0: "failures (get_state st p) = 0" and o0: "open_until (get_state st p) = 0"
    using assms(1) by (simp_all add: closed_state_def)
  have at: "open_until (get_state (record_failures cfg p st ts) p)
              = last ts + of_int (CIRCUIT_COOL_OFF_SECONDS cfg)"
    using open_until_at_threshold [OF assms(2), of cfg st p] assms(3) f0 by simp
  have "length (butlast ts) < length ts"
    using assms(2) by (simp add: less_Suc_eq_le Suc_pred)
  then have lt: "failures (get_state st p) + int (length (butlast ts)) < CIRCUIT_FAILURE_THRESHOLD cfg"
    using assms(3) f0 by linarith
  have below: "open_until (get_state (record_failures cfg p st (butlast ts)) p) = 0"
    using open_until_below_threshold [OF lt] o0 by simp
  have c1: "now < last ts + of_int (CIRCUIT_COOL_OFF_SECONDS cfg) \<longrightarrow>
            (\<exists>m r. check_circuit_state p (record_failures cfg p st ts) now later =
               Inl (ServiceError m ''PROVIDER_UNAVAILABLE''
                      [(''provider'', JStr p), (''retry_after_seconds'', JInt r)]))"
    using check_circuit_state_Inl [of now "record_failures cfg p st ts" p later] at by auto
  have c2: "last ts + of_int (CIRCUIT_COOL_OFF_SECONDS cfg) \<le> now \<longrightarrow>
            check_circuit_state p (record_failures cfg p st ts) now later = Inr ()"
    by (simp add: check_circuit_state_Inr at)
  have c3: "check_circuit_state p (record_failures cfg p st (butlast ts)) now later = Inr ()"
    using assms(4) by (simp add: check_circuit_state_Inr below)
  have c4: "get_state (record_success p st') p = \<lparr> failures = 0, open_until = 0 \<rparr>"
    using get_state_record_success [of p st'] by (simp add: closed_state_def)
  have c5: "check_circuit_state p (record_success p st') now later = Inr ()"
    using assms(4) by (simp add: check_circuit_state_Inr get_state_record_success closed_state_def)
  from c1 c2 c3 c4 c5 show ?thesis by blast
qed

theorem circuit_breaker_witness:
  "(\<exists>m r. check_circuit_state ''anthropic''
            (record_failures default_settings ''anthropic'' provider_state_init [100, 101, 102]) 110 111 =
          Inl (ServiceError m ''PROVIDER_UNAVAILABLE''
                 [(''provider'', JStr ''anthropic''), (''retry_after_seconds'', JInt r)]))
   \<and> check_circuit_state ''anthropic''
            (record_failures default_settings ''anthropic'' provider_state_init [100, 101, 102]) 132 132 = Inr ()
   \<and> check_circuit_state ''anthropic''
            (record_failures default_settings ''anthropic'' provider_state_init [100, 101]) 110 111 = Inr ()
   \<and> check_circuit_state ''anthropic''
        (record_success ''anthropic''
           (record_failures default_settings ''anthropic'' provider_state_init [100, 101, 102])) 110 111 = Inr ()"
proof -
  have h1: "get_state provider_state_init ''anthropic'' = closed_state"
    by (simp add: get_state_def provider_state_init_def)
  have h2: "[100, 101, 102 :: real] \<noteq> []" by simp
  have h3: "int (length [100, 101, 102 :: real]) = CIRCUIT_FAILURE_THRESHOLD default_settings"
    by (simp add: default_settings_def)
  have c: "CIRCUIT_COOL_OFF_SECONDS default_settings = 30"
    by (simp add: default_settings_def)
  show ?thesis
    using circuit_breaker_opens_at_threshold_and_resets [OF h1 h2 h3, of 110 111
        "record_failures default_settings ''anthropic'' provider_state_init [100, 101, 102]"]
      circuit_breaker_opens_at_threshold_and_resets [OF h1 h2 h3, of 132 132]
    by (simp add: c)
qed

section \<open>Properties of the retry loops\<close>

lemma claude_retry_step:
  "anthropic_retriable (create attempt) \<Longrightarrow>
   claude_loop cfg create model max_retries (Suc k) attempt last_error sl =
   claude_loop cfg create model max_retries k (Suc attempt) (Some (anthropic_error_text (create attempt)))
     (if int attempt < max_retries then sl @ [RETRY_DELAY cfg * 2 ^ attempt] else sl)"
  by (auto simp: anthropic_retriable_def anthropic_error_text_def split: anthropic_outcome.splits)

lemma gemini_retry_step:
  "gemini_retriable (fetch attempt) \<Longrightarrow>
   gemini_loop cfg fetch model max_retries (Suc k) attempt last_error sl =
   gemini_loop cfg fetch model max_retries k (Suc attempt) (Some (gemini_error_text (fetch attempt)))
     (if int attempt < max_retries then sl @ [RETRY_DELAY cfg * 2 ^ attempt] else sl)"
  by (auto simp: gemini_retriable_def gemini_error_text_def split: gemini_outcome.splits)

lemma claude_all_retriable:
  assumes "\<forall>i. anthropic_retriable (create req i)"
  shows "call_claude_with_retry cfg p create req 2 st now =
     \<lparr> result = Inl (ServiceError
          ''Failed to generate content after retry attempts. Please try again shortly.''
          ''API_ERROR''
          [(''last_error'', JStr (anthropic_error_text (create req 2))), (''provider'', JStr ''anthropic'')]),
       calls = 3, sleeps = [RETRY_DELAY cfg, RETRY_DELAY cfg * 2],
       circuit_after = record_failure cfg p st now \<rparr>"
proof -
  have three: "nat (2 + 1) = Suc (Suc (Suc 0))" by simp
  have "claude_loop cfg (create req) (req_model req) 2 (nat (2 + 1)) 0 None [] =
        (Exhausted (Some (anthropic_error_text (create req 2))), 3, [RETRY_DELAY cfg, RETRY_DELAY cfg * 2])"
    unfolding three using assms
    by (simp add: claude_retry_step numeral_2_eq_2 numeral_3_eq_3 del: claude_loop.simps(2))
  then show ?thesis
    by (simp add: call_claude_with_retry_def finish_retry_def str_last_error_def)
qed

lemma gemini_all_retriable:
  assumes "\<forall>i. gemini_retriable (fetch req i)"
  shows "call_gemini_with_retry cfg p fetch req 2 st now =
     \<lparr> result = Inl (ServiceError
          ''Failed to generate content after retry attempts. Please try again shortly.''
          ''API_ERROR''
          [(''last_error'', JStr (gemini_error_text (fetch req 2))), (''provider'', JStr ''gemini'')]),
       calls = 3, sleeps = [RETRY_DELAY cfg, RETRY_DELAY cfg * 2],
       circuit_after = record_failure cfg p st now \<rparr>"
proof -
  have three: "nat (2 + 1) = Suc (Suc (Suc 0))" by simp
  have "gemini_loop cfg (fetch req) (req_model req) 2 (nat (2 + 1)) 0 None [] =
        (Exhausted (Some (gemini_error_text (fetch req 2))), 3, [RETRY_DELAY cfg, RETRY_DELAY cfg * 2])"
    unfolding three using assms
    by (simp add: gemini_retry_step numeral_2_eq_2 numeral_3_eq_3 del: gemini_loop.simps(2))
  then show ?thesis
    by (simp add: call_gemini_with_retry_def finish_retry_def str_last_error_def)
qed

lemma claude_fatal_first:
  assumes "create req 0 = AnthropicError sc msg" "anthropic_fatal sc msg = Some e" "0 \<le> max_retries"
  shows "call_claude_with_retry cfg p create req max_retries st now =
     \<lparr> result = Inl e, calls = 1, sleeps = [], circuit_after = st \<rparr>"
proof -
  from assms(3) obtain k where k: "nat (max_retries + 1) = Suc k"
    by (cases "nat (max_retries + 1)") simp_all
  show ?thesis
    by (simp add: call_claude_with_retry_def finish_retry_def k assms(1,2))
qed

lemma gemini_fatal_first:
  assumes "fetch req 0 = HTTPError c b m rs" "gemini_fatal c b m rs = Some e" "0 \<le> max_retries"
  shows "call_gemini_with_retry cfg p fetch req max_retries st now =
     \<lparr> result = Inl e, calls = 1, sleeps = [], circuit_after = st \<rparr>"
proof -
  from assms(3) obtain k where k: "nat (max_retries + 1) = Suc k"
    by (cases "nat (max_retries + 1)") simp_all
  show ?thesis
    by (simp add: call_gemini_with_retry_def finish_retry_def k assms(1,2))
qed

lemma anthropic_fatal_code:
  "anthropic_fatal sc msg = Some e \<Longrightarrow> code e = ''BILLING_ERROR'' \<or> code e = ''API_REQUEST_ERROR''"
  by (auto simp: anthropic_fatal_def split: option.splits if_splits)

lemma gemini_fatal_code:
  "gemini_fatal c b m rs = Some e \<Longrightarrow>
   code e = ''BILLING_ERROR'' \<or> code e = ''AUTH_ERROR'' \<or> code e = ''API_REQUEST_ERROR''"
  unfolding gemini_fatal_def Let_def
  by (auto split: if_splits)

lemma claude_loop_Raised:
  "claude_loop cfg create model mr k a l sl = (Raised e, n, sl') \<Longrightarrow>
   code e = ''BILLING_ERROR'' \<or> code e = ''API_REQUEST_ERROR''"
proof (induction k arbitrary: a l sl)
  case 0
  then show ?case by simp
next
  case (Suc k)
  show ?case
  proof (cases "create a")
    case (Message bs it ot gt)
    with Suc.prems show ?thesis by simp
  next
    case (AnthropicError sc msg)
    show ?thesis
    proof (cases "anthropic_fatal sc msg")
      case None
      with Suc.prems AnthropicError
      have "claude_loop cfg create model mr k (Suc a) (Some msg)
              (if int a < mr then sl @ [RETRY_DELAY cfg * 2 ^ a] else sl) = (Raised e, n, sl')"
        by simp
      then show ?thesis by (rule Suc.IH)
    next
      case (Some e')
      with Suc.prems AnthropicError have "e = e'" by simp
      with Some show ?thesis using anthropic_fatal_code by blast
    qed
  next
    case (OtherException t)
    with Suc.prems show ?thesis by simp
  qed
qed

lemma gemini_loop_Raised:
  "gemini_loop cfg fetch model mr k a l sl = (Raised e, n, sl') \<Longrightarrow>
   code e = ''BILLING_ERROR'' \<or> code e = ''AUTH_ERROR'' \<or> code e = ''API_REQUEST_ERROR''"
proof (induction k arbitrary: a l sl)
  case 0
  then show ?case by simp
next
  case (Suc k)
  show ?case
  proof (cases "fetch a")
    case (GeminiResponse ps u gt)
    with Suc.prems show ?thesis by simp
  next
    case (HTTPError c b m rs)
    show ?thesis
    proof (cases "gemini_fatal c b m rs")
      case None
      with Suc.prems HTTPError
      have "gemini_loop cfg fetch model mr k (Suc a) (Some (''HTTP '' @ str_int c @ '': '' @ b))
              (if int a < mr then sl @ [RETRY_DELAY cfg * 2 ^ a] else sl) = (Raised e, n, sl')"
        by simp
      then show ?thesis by (rule Suc.IH)
    next
      case (Some e')
      with Suc.prems HTTPError have "e = e'" by simp
      with Some show ?thesis using gemini_fatal_code by blast
    qed
  next
    case (GeminiException t)
    with Suc.prems
    have "gemini_loop cfg fetch model mr k (Suc a) (Some t)
            (if int a < mr then sl @ [RETRY_DELAY cfg * 2 ^ a] else sl) = (Raised e, n, sl')"
      by simp
    then show ?thesis by (rule Suc.IH)
  qed
qed

lemma finish_retry_Inl:
  assumes "result (finish_retry cfg p name st now lp) = Inl e"
  shows "(\<exists>n sl. lp = (Raised e, n, sl) \<and> circuit_after (finish_retry cfg p name st now lp) = st)
       \<or> (code e = ''API_ERROR'' \<and>
           circuit_after (finish_retry cfg p name st now lp) = record_failure cfg p st now)"
proof -
  obtain le n sl where lp: "lp = (le, n, sl)" by (cases lp) auto
  show ?thesis
    using assms unfolding lp by (cases le) (auto simp: finish_retry_def)
qed

lemma call_model_Inl:
  assumes "result (call_model_with_retry cfg p ev st sys usr temp mt speed) = Inl e"
  shows "(code e \<noteq> ''API_ERROR'' \<and>
          circuit_after (call_model_with_retry cfg p ev st sys usr temp mt speed) = st)
       \<or> (code e = ''API_ERROR'' \<and>
           circuit_after (call_model_with_retry cfg p ev st sys usr temp mt speed)
             = record_failure cfg p st (time_failure ev))"
proof (cases "check_circuit_state p st (time_check ev) (time_retry_after ev)")
  case (Inl e')
  with assms have "e = e'" by (simp add: call_model_with_retry_def)
  moreover from Inl have "code e' = ''PROVIDER_UNAVAILABLE''"
    by (auto simp: check_circuit_state_def Let_def split: if_splits)
  ultimately show ?thesis using Inl by (simp add: call_model_with_retry_def)
next
  case (Inr u)
  define req where "req = \<lparr> req_model = resolve_model cfg p speed, req_max_tokens = mt,
      req_temperature = temp, req_system = sys, req_user = usr,
      req_timeout = resolve_timeout_seconds cfg speed \<rparr>"
  consider (a) "p = ''anthropic''" | (g) "p \<noteq> ''anthropic''" "p = ''gemini''"
    | (o) "p \<noteq> ''anthropic''" "p \<noteq> ''gemini''" by blast
  then show ?thesis
  proof cases
    case a
    define lp where "lp = claude_loop cfg (messages_create ev req) (req_model req)
        (resolve_retry_count cfg speed) (nat (resolve_retry_count cfg speed + 1)) 0 None []"
    define r where "r = finish_retry cfg p ''anthropic'' st (time_failure ev) lp"
    have cm: "call_model_with_retry cfg p ev st sys usr temp mt speed = then_record_success p r"
      using Inr a
      by (simp add: call_model_with_retry_def Let_def call_claude_with_retry_def r_def lp_def req_def)
    have re: "result r = Inl e"
      using assms unfolding cm then_record_success_def by (cases "result r") simp_all
    then have cmr: "call_model_with_retry cfg p ev st sys usr temp mt speed = r"
      unfolding cm then_record_success_def by simp
    from finish_retry_Inl [OF re [unfolded r_def]] show ?thesis
    proof
      assume "\<exists>n sl. lp = (Raised e, n, sl) \<and>
          circuit_after (finish_retry cfg p ''anthropic'' st (time_failure ev) lp) = st"
      then obtain n sl where lpe: "lp = (Raised e, n, sl)"
        and ca: "circuit_after r = st" by (auto simp: r_def)
      have "code e \<noteq> ''API_ERROR''"
        using claude_loop_Raised [OF lpe [unfolded lp_def]] by auto
      with ca show ?thesis unfolding cmr by simp
    next
      assume "code e = ''API_ERROR'' \<and>
          circuit_after (finish_retry cfg p ''anthropic'' st (time_failure ev) lp)
            = record_failure cfg p st (time_failure ev)"
      then show ?thesis unfolding cmr r_def by simp
    qed
  next
    case g
    define lp where "lp = gemini_loop cfg (urlopen ev req) (req_model req)
        (resolve_retry_count cfg speed) (nat (resolve_retry_count cfg speed + 1)) 0 None []"
    define r where "r = finish_retry cfg p ''gemini'' st (time_failure ev) lp"
    have cm: "call_model_with_retry cfg p ev st sys usr temp mt speed = then_record_success p r"
      using Inr g
      by (simp add: call_model_with_retry_def Let_def call_gemini_with_retry_def r_def lp_def req_def)
    have re: "result r = Inl e"
      using assms unfolding cm then_record_success_def by (cases "result r") simp_all
    then have cmr: "call_model_with_retry cfg p ev st sys usr temp mt speed = r"
      unfolding cm then_record_success_def by simp
    from finish_retry_Inl [OF re [unfolded r_def]] show ?thesis
    proof
      assume "\<exists>n sl. lp = (Raised e, n, sl) \<and>
          circuit_after (finish_retry cfg p ''gemini'' st (time_failure ev) lp) = st"
      then obtain n sl where lpe: "lp = (Raised e, n, sl)"
        and ca: "circuit_after r = st" by (auto simp: r_def)
      have "code e \<noteq> ''API_ERROR''"
        using gemini_loop_Raised [OF lpe [unfolded lp_def]] by auto
      with ca show ?thesis unfolding cmr by simp
    next
      assume "code e = ''API_ERROR'' \<and>
          circuit_after (finish_retry cfg p ''gemini'' st (time_failure ev) lp)
            = record_failure cfg p st (time_failure ev)"
      then show ?thesis unfolding cmr r_def by simp
    qed
  next
    case o
    have cm: "call_model_with_retry cfg p ev st sys usr temp mt speed =
        \<lparr> result = Inl (ServiceError
             (''Unsupported LLM provider '' @ [CHR 0x27] @ p @ [CHR 0x27]) ''INVALID_PROVIDER'' []),
          calls = 0, sleeps = [], circuit_after = st \<rparr>"
      using Inr o by (simp add: call_model_with_retry_def Let_def)
    have "code e = ''INVALID_PROVIDER''"
      using assms unfolding cm by auto
    then show ?thesis unfolding cm by simp
  qed
qed

text \<open>
  C4. With \<open>max_retries = 2\<close> and a provider call that raises a retried error on every
  attempt, both \<open>_call_claude_with_retry\<close> and \<open>_call_gemini_with_retry\<close> make
  exactly 3 calls, sleep \<open>RETRY_DELAY\<close> and \<open>2 * RETRY_DELAY\<close> in between, and raise
  \<open>API_ERROR\<close> whose \<open>last_error\<close> is the text of the third, last, error. With a
  fail-fast (billing, auth, malformed-request) error on the first attempt exactly 1 call
  is made, nothing is slept, and that error is raised at once.
\<close>

theorem retry_executor_attempts:
  "((\<forall>i. anthropic_retriable (create req i)) \<longrightarrow>
      call_claude_with_retry cfg p create req 2 st now =
        \<lparr> result = Inl (ServiceError
             ''Failed to generate content after retry attempts. Please try again shortly.''
             ''API_ERROR''
             [(''last_error'', JStr (anthropic_error_text (create req 2))),
              (''provider'', JStr ''anthropic'')]),
          calls = 3, sleeps = [RETRY_DELAY cfg, RETRY_DELAY cfg * 2],
          circuit_after = record_failure cfg p st now \<rparr>)
   \<and> ((\<forall>i. gemini_retriable (fetch req i)) \<longrightarrow>
      call_gemini_with_retry cfg p fetch req 2 st now =
        \<lparr> result = Inl (ServiceError
             ''Failed to generate content after retry attempts. Please try again shortly.''
             ''API_ERROR''
             [(''last_error'', JStr (gemini_error_text (fetch req 2))),
              (''provider'', JStr ''gemini'')]),
          calls = 3, sleeps = [RETRY_DELAY cfg, RETRY_DELAY cfg * 2],
          circuit_after = record_failure cfg p st now \<rparr>)
   \<and> (create req 0 = AnthropicError sc msg \<and> anthropic_fatal sc msg = Some e \<and> 0 \<le> max_retries \<longrightarrow>
      call_claude_with_retry cfg p create req max_retries st now =
        \<lparr> result = Inl e, calls = 1, sleeps = [], circuit_after = st \<rparr>)
   \<and> (fetch req 0 = HTTPError c b m rs \<and> gemini_fatal c b m rs = Some e' \<and> 0 \<le> max_retries \<longrightarrow>
      call_gemini_with_retry cfg p fetch req max_retries st now =
        \<lparr> result = Inl e', calls = 1, sleeps = [], circuit_after = st \<rparr>)"
  using claude_all_retriable [of create req cfg p st now]
    gemini_all_retriable [of fetch req cfg p st now]
    claude_fatal_first [of create req sc msg e max_retries cfg p st now]
    gemini_fatal_first [of fetch req c b m rs e' max_retries cfg p st now]
  by blast

lemma ex_anthropic_503: "anthropic_fatal (Some 503) ''overloaded'' = None"
  by (simp add: anthropic_fatal_def)

lemma ex_anthropic_401:
  "anthropic_fatal (Some 401) ''invalid x-api-key'' =
     Some (ServiceError ''Anthropic request failed: invalid x-api-key'' ''API_REQUEST_ERROR''
            [(''provider'', JStr ''anthropic''), (''status_code'', JInt 401)])"
  by (simp add: anthropic_fatal_def lower_def lower_char_def)

lemma ex_gemini_400:
  "gemini_fatal 400 ''{}'' [] ''API_KEY_INVALID'' =
     Some (ServiceError
            ''Gemini API key is invalid or expired. Create/rotate a valid key and retry.''
            ''AUTH_ERROR''
            [(''provider'', JStr ''gemini''), (''status_code'', JInt 400),
             (''reason'', JStr ''API_KEY_INVALID'')])"
  by (simp add: gemini_fatal_def lower_def lower_char_def str_or_def)

theorem retry_executor_attempts_witness:
  "calls (call_claude_with_retry default_settings ''anthropic''
            (\<lambda>_ _. AnthropicError (Some 503) ''overloaded'')
            \<lparr> req_model = ''claude-3-5-sonnet-20241022'', req_max_tokens = 4000, req_temperature = 1,
              req_system = ''system'', req_user = ''user'', req_timeout = 60 \<rparr>
            2 provider_state_init 100) = 3
   \<and> calls (call_gemini_with_retry default_settings ''gemini''
            (\<lambda>_ _. GeminiException ''timed out'')
            \<lparr> req_model = ''gemini-2.0-flash'', req_max_tokens = 4000, req_temperature = 1,
              req_system = ''system'', req_user = ''user'', req_timeout = 60 \<rparr>
            2 provider_state_init 100) = 3
   \<and> calls (call_claude_with_retry default_settings ''anthropic''
            (\<lambda>_ _. AnthropicError (Some 401) ''invalid x-api-key'')
            \<lparr> req_model = ''claude-3-5-sonnet-20241022'', req_max_tokens = 4000, req_temperature = 1,
              req_system = ''system'', req_user = ''user'', req_timeout = 60 \<rparr>
            2 provider_state_init 100) = 1
   \<and> calls (call_gemini_with_retry default_settings ''gemini''
            (\<lambda>_ _. HTTPError 400 ''{}'' [] ''API_KEY_INVALID'')
            \<lparr> req_model = ''gemini-2.0-flash'', req_max_tokens = 4000, req_temperature = 1,
              req_system = ''system'', req_user = ''user'', req_timeout = 60 \<rparr>
            2 provider_state_init 100) = 1"
proof -
  have r1: "\<forall>i::nat. anthropic_retriable (AnthropicError (Some 503) ''overloaded'')"
    by (simp add: anthropic_retriable_def ex_anthropic_503)
  have r2: "\<forall>i::nat. gemini_retriable (GeminiException ''timed out'')"
    by (simp add: gemini_retriable_def)
  note t1 = retry_executor_attempts
    [where create = "\<lambda>_ _. AnthropicError (Some 503) ''overloaded''"
       and fetch = "\<lambda>_ _. GeminiException ''timed out''" and max_retries = 2
       and cfg = default_settings and st = provider_state_init and now = 100]
  note t2 = retry_executor_attempts
    [where create = "\<lambda>_ _. AnthropicError (Some 401) ''invalid x-api-key''"
       and sc = "Some 401" and msg = "''invalid x-api-key''"
       and fetch = "\<lambda>_ _. HTTPError 400 ''{}'' [] ''API_KEY_INVALID''"
       and c = 400 and b = "''{}''" and m = "[]" and rs = "''API_KEY_INVALID''"
       and max_retries = 2
       and cfg = default_settings and st = provider_state_init and now = 100]
  show ?thesis
    using t1 t2 r1 r2 ex_anthropic_401 ex_gemini_400 by simp
qed

text \<open>
  C10. When \<open>_call_model_with_retry\<close> raises a billing, auth or malformed-request
  error, the circuit-breaker state is the one it started from: \<open>_record_failure\<close> was
  not called. The state has changed after a raise only on the path that falls out of the
  retry loop, which raises \<open>API_ERROR\<close> after one \<open>_record_failure\<close>.
\<close>

theorem fatal_errors_leave_breaker_unchanged:
  assumes "result (call_model_with_retry cfg p ev st sys usr temp mt speed) = Inl e"
  shows "(code e = ''BILLING_ERROR'' \<or> code e = ''AUTH_ERROR'' \<or> code e = ''API_REQUEST_ERROR'' \<longrightarrow>
            circuit_after (call_model_with_retry cfg p ev st sys usr temp mt speed) = st)
       \<and> (circuit_after (call_model_with_retry cfg p ev st sys usr temp mt speed) \<noteq> st \<longrightarrow>
            code e = ''API_ERROR'' \<and>
            circuit_after (call_model_with_retry cfg p ev st sys usr temp mt speed)
              = record_failure cfg p st (time_failure ev))"
proof -
  from call_model_Inl [OF assms]
  consider (same) "code e \<noteq> ''API_ERROR''"
      "circuit_after (call_model_with_retry cfg p ev st sys usr temp mt speed) = st"
    | (failed) "code e = ''API_ERROR''"
      "circuit_after (call_model_with_retry cfg p ev st sys usr temp mt speed)
         = record_failure cfg p st (time_failure ev)"
    by blast
  then show ?thesis
  proof cases
    case same
    then show ?thesis by simp
  next
    case failed
    then show ?thesis by simp
  qed
qed

lemma ex_call_model_fatal:
  "call_model_with_retry default_settings ''gemini''
     \<lparr> messages_create = (\<lambda>_ _. OtherException ''unused''),
       urlopen = (\<lambda>_ _. HTTPError 400 ''{}'' [] ''API_KEY_INVALID''),
       time_check = 100, time_retry_after = 100, time_failure = 101 \<rparr>
     provider_state_init ''system'' ''user'' 1 4000 ''normal''
   = \<lparr> result = Inl (ServiceError
            ''Gemini API key is invalid or expired. Create/rotate a valid key and retry.''
            ''AUTH_ERROR''
            [(''provider'', JStr ''gemini''), (''status_code'', JInt 400),
             (''reason'', JStr ''API_KEY_INVALID'')]),
       calls = 1, sleeps = [], circuit_after = provider_state_init \<rparr>"
proof -
  have chk: "check_circuit_state ''gemini'' provider_state_init 100 100 = Inr ()"
    by (simp add: check_circuit_state_Inr get_state_def provider_state_init_def closed_state_def)
  have rc: "resolve_retry_count default_settings ''normal'' = 2"
    by (simp add: resolve_retry_count_def default_settings_def)
  show ?thesis
    by (simp add: call_model_with_retry_def chk rc Let_def
        gemini_fatal_first [OF _ ex_gemini_400] then_record_success_def)
qed

lemma ex_call_model_exhausted:
  "call_model_with_retry default_settings ''gemini''
     \<lparr> messages_create = (\<lambda>_ _. OtherException ''unused''),
       urlopen = (\<lambda>_ _. GeminiException ''timed out''),
       time_check = 100, time_retry_after = 100, time_failure = 101 \<rparr>
     provider_state_init ''system'' ''user'' 1 4000 ''normal''
   = \<lparr> result = Inl (ServiceError
            ''Failed to generate content after retry attempts. Please try again shortly.''
            ''API_ERROR''
            [(''last_error'', JStr ''timed out''), (''provider'', JStr ''gemini'')]),
       calls = 3, sleeps = [1, 2],
       circuit_after = record_failure default_settings ''gemini'' provider_state_init 101 \<rparr>"
proof -
  have chk: "check_circuit_state ''gemini'' provider_state_init 100 100 = Inr ()"
    by (simp add: check_circuit_state_Inr get_state_def provider_state_init_def closed_state_def)
  have rc: "resolve_retry_count default_settings ''normal'' = 2"
    by (simp add: resolve_retry_count_def default_settings_def)
  have rd: "RETRY_DELAY default_settings = 1"
    by (simp add: default_settings_def)
  have r2: "\<forall>i::nat. gemini_retriable (GeminiException ''timed out'')"
    by (simp add: gemini_retriable_def)
  show ?thesis
    by (simp add: call_model_with_retry_def chk rc rd Let_def gemini_error_text_def
        gemini_all_retriable [where fetch = "\<lambda>_ _. GeminiException ''timed out''", OF r2]
        then_record_success_def)
qed

theorem fatal_errors_leave_breaker_unchanged_witness:
  "circuit_after (call_model_with_retry default_settings ''gemini''
     \<lparr> messages_create = (\<lambda>_ _. OtherException ''unused''),
       urlopen = (\<lambda>_ _. HTTPError 400 ''{}'' [] ''API_KEY_INVALID''),
       time_check = 100, time_retry_after = 100, time_failure = 101 \<rparr>
     provider_state_init ''system'' ''user'' 1 4000 ''normal'') = provider_state_init
   \<and> failures (get_state (circuit_after (call_model_with_retry default_settings ''gemini''
     \<lparr> messages_create = (\<lambda>_ _. OtherException ''unused''),
       urlopen = (\<lambda>_ _. GeminiException ''timed out''),
       time_check = 100, time_retry_after = 100, time_failure = 101 \<rparr>
     provider_state_init ''system'' ''user'' 1 4000 ''normal'')) ''gemini'') = 1"
proof -
  have a: "result (call_model_with_retry default_settings ''gemini''
     \<lparr> messages_create = (\<lambda>_ _. OtherException ''unused''),
       urlopen = (\<lambda>_ _. HTTPError 400 ''{}'' [] ''API_KEY_INVALID''),
       time_check = 100, time_retry_after = 100, time_failure = 101 \<rparr>
     provider_state_init ''system'' ''user'' 1 4000 ''normal'') =
       Inl (ServiceError
            ''Gemini API key is invalid or expired. Create/rotate a valid key and retry.''
            ''AUTH_ERROR''
            [(''provider'', JStr ''gemini''), (''status_code'', JInt 400),
             (''reason'', JStr ''API_KEY_INVALID'')])"
    by (simp add: ex_call_model_fatal)
  have b: "result (call_model_with_retry default_settings ''gemini''
     \<lparr> messages_create = (\<lambda>_ _. OtherException ''unused''),
       urlopen = (\<lambda>_ _. GeminiException ''timed out''),
       time_check = 100, time_retry_after = 100, time_failure = 101 \<rparr>
     provider_state_init ''system'' ''user'' 1 4000 ''normal'') =
       Inl (ServiceError
            ''Failed to generate content after retry attempts. Please try again shortly.''
            ''API_ERROR''
            [(''last_error'', JStr ''timed out''), (''provider'', JStr ''gemini'')])"
    by (simp add: ex_call_model_exhausted)
  have ne: "circuit_after (call_model_with_retry default_settings ''gemini''
     \<lparr> messages_create = (\<lambda>_ _. OtherException ''unused''),
       urlopen = (\<lambda>_ _. GeminiException ''timed out''),
       time_check = 100, time_retry_after = 100, time_failure = 101 \<rparr>
     provider_state_init ''system'' ''user'' 1 4000 ''normal'') \<noteq> provider_state_init"
  proof
    assume "circuit_after (call_model_with_retry default_settings ''gemini''
     \<lparr> messages_create = (\<lambda>_ _. OtherException ''unused''),
       urlopen = (\<lambda>_ _. GeminiException ''timed out''),
       time_check = 100, time_retry_after = 100, time_failure = 101 \<rparr>
     provider_state_init ''system'' ''user'' 1 4000 ''normal'') = provider_state_init"
    then have "get_state (record_failure default_settings ''gemini'' provider_state_init 101) ''gemini''
        = get_state provider_state_init ''gemini''"
      by (simp add: ex_call_model_exhausted)
    then show False
      by (simp add: get_state_record_failure)
        (simp add: get_state_def provider_state_init_def closed_state_def)
  qed
  have g0: "failures (get_state provider_state_init ''gemini'') = 0"
    by (simp add: get_state_def provider_state_init_def closed_state_def)
  show ?thesis
    using fatal_errors_leave_breaker_unchanged [OF a] fatal_errors_leave_breaker_unchanged [OF b] ne
    by (simp add: get_state_record_failure g0)
qed

section \<open>Properties of the engagement toggle\<close>










section \<open>Properties of the rendered user prompt\<close>

lemma py_in_sublist: "py_in n h = sublist n h"
  by (induction h) (simp_all add: sublist_Cons_right)

lemma sublist_split_at:
  assumes "c \<notin> set n"
  shows "sublist n (xs @ c # ys) = (sublist n xs \<or> sublist n ys)"
proof -
  have p: "prefix m (c # ys) \<Longrightarrow> set m \<subseteq> set n \<Longrightarrow> m = []" for m
    using assms by (auto simp: prefix_Cons)
  have "sublist n (c # ys) = (n = [] \<or> sublist n ys)"
    using p [of n] by (auto simp: sublist_Cons_right)
  moreover have "(\<exists>n1 n2. n = n1 @ n2 \<and> suffix n1 xs \<and> prefix n2 (c # ys)) \<Longrightarrow> sublist n xs"
  proof -
    assume "\<exists>n1 n2. n = n1 @ n2 \<and> suffix n1 xs \<and> prefix n2 (c # ys)"
    then obtain n1 n2 where n: "n = n1 @ n2" and s: "suffix n1 xs" and q: "prefix n2 (c # ys)"
      by blast
    from p [OF q] n have "n2 = []" by auto
    with n s show ?thesis by auto
  qed
  ultimately show ?thesis
    by (auto simp: sublist_append)
qed

lemma sublist_skip_prefix:
  assumes "a \<notin> set xs"
  shows "sublist (a # n) (xs @ ys) = sublist (a # n) ys"
proof -
  have "\<not> sublist (a # n) xs"
    using assms set_mono_sublist [of "a # n" xs] by auto
  moreover have "sublist (a # n) ys"
    if "\<exists>n1 n2. a # n = n1 @ n2 \<and> suffix n1 xs \<and> prefix n2 ys"
  proof -
    from that obtain n1 n2 where n: "a # n = n1 @ n2" and s: "suffix n1 xs" and q: "prefix n2 ys"
      by blast
    have "n1 = []"
    proof (rule ccontr)
      assume "n1 \<noteq> []"
      with n have "a \<in> set n1" by (cases n1) auto
      moreover from s have "set n1 \<subseteq> set xs" by (auto simp: suffix_def)
      ultimately show False using assms by auto
    qed
    with n q show ?thesis by auto
  qed
  ultimately show ?thesis
    by (auto simp: sublist_append)
qed


lemma str_nat_digits: "c \<in> set (str_nat n) \<Longrightarrow> 48 \<le> (of_char c :: nat) \<and> (of_char c :: nat) < 58"
proof (induction n rule: str_nat.induct)
  case (1 n)
  show ?case
  proof (cases "n < 10")
    case True
    with "1.prems" have "c = digit_char n"
      by (simp add: str_nat.simps [of n])
    with True show ?thesis by (simp add: digit_char_def)
  next
    case False
    with "1.prems" have "c \<in> set (str_nat (n div 10)) \<or> c = digit_char (n mod 10)"
      by (auto simp: str_nat.simps [of n])
    then show ?thesis
    proof
      assume "c \<in> set (str_nat (n div 10))"
      with False "1.IH" show ?thesis by simp
    next
      assume "c = digit_char (n mod 10)"
      then show ?thesis by (simp add: digit_char_def)
    qed
  qed
qed

lemma str_int_chars:
  "c \<in> set (str_int i) \<Longrightarrow> c = CHR ''-'' \<or> (48 \<le> (of_char c :: nat) \<and> (of_char c :: nat) < 58)"
  by (auto simp: str_int_def dest: str_nat_digits split: if_splits)

lemma directive_not_in_str_int: "\<not> sublist sources_directive (str_int i)"
proof
  assume "sublist sources_directive (str_int i)"
  then have "set sources_directive \<subseteq> set (str_int i)" by (rule set_mono_sublist)
  moreover have "CHR ''A'' \<in> set sources_directive" by (simp add: sources_directive_def)
  ultimately have "CHR ''A'' \<in> set (str_int i)" by blast
  from str_int_chars [OF this] show False by simp
qed

lemma directive_Nil: "sources_directive \<noteq> []"
  by (simp add: sources_directive_def)

lemma directive_skip: "c \<noteq> CHR ''A'' \<Longrightarrow> sublist sources_directive (c # ys) = sublist sources_directive ys"
  using sublist_skip_prefix [of "CHR ''A''" "[c]" "tl sources_directive" ys]
  by (simp add: sources_directive_def)

lemma directive_skip_A:
  "c \<noteq> CHR ''f'' \<Longrightarrow> sublist sources_directive (CHR ''A'' # c # ys) = sublist sources_directive (c # ys)"
  by (simp add: sublist_Cons_right [of _ "CHR ''A''"] sources_directive_def)

lemma directive_split:
  "c = CHR ''\<newline>'' \<or> c = CHR '':'' \<or> c = CHR ''-'' \<Longrightarrow>
   sublist sources_directive (xs @ c # ys) = (sublist sources_directive xs \<or> sublist sources_directive ys)"
  by (rule sublist_split_at) (auto simp: sources_directive_def)

lemma directive_not_in_style: "\<not> sublist sources_directive (style_guidance p)"
  by (simp add: style_guidance_def directive_skip directive_Nil)

lemma directive_context_lines:
  assumes "\<forall>(k, v) \<in> set items. \<not> sublist sources_directive k \<and> \<not> sublist sources_directive v"
  shows "sublist sources_directive
           (concat (map (\<lambda>(key, value). ''\<newline>- '' @ key @ '': '' @ value @ ''\<newline>'') items) @ zs)
         = sublist sources_directive zs"
  using assms
proof (induction items)
  case Nil
  then show ?case by simp
next
  case (Cons kv items)
  obtain k v where kv: "kv = (k, v)" by (cases kv)
  from Cons.prems kv have nk: "\<not> sublist sources_directive k" and nv: "\<not> sublist sources_directive v"
    by auto
  have ih: "sublist sources_directive
           (concat (map (\<lambda>(key, value). ''\<newline>- '' @ key @ '': '' @ value @ ''\<newline>'') items) @ zs)
         = sublist sources_directive zs"
    using Cons by simp
  show ?case
    using ih by (simp add: kv directive_skip directive_split directive_Nil nk nv)
qed

lemma directive_skip_str_int:
  "sublist sources_directive (str_int i @ ys) = sublist sources_directive ys"
proof -
  have "CHR ''A'' \<notin> set (str_int i)"
    using str_int_chars [of "CHR ''A''" i] by auto
  from sublist_skip_prefix [OF this, of "tl sources_directive" ys] show ?thesis
    by (simp add: sources_directive_def)
qed

lemma directive_not_in_fast_render:
  assumes "\<not> sublist sources_directive topic"
    and "\<forall>(k, v) \<in> set items. \<not> sublist sources_directive k \<and> \<not> sublist sources_directive v"
    and "\<not> sublist sources_directive g"
  shows "\<not> sublist sources_directive (render_template topic items mn mx g False is_fast)"
  using assms(1,3) directive_context_lines [OF assms(2)]
  by (simp add: render_template_def directive_skip directive_skip_A directive_split directive_Nil
      directive_skip_str_int)

lemma directive_in_full_render:
  "sublist sources_directive (render_template topic items mn mx g True is_fast)"
proof -
  have eq: "render_template topic items mn mx g True is_fast =
        (render_template topic items mn mx g False is_fast @ ''\<newline>'') @ sources_directive @ ''\<newline>''"
    by (simp add: render_template_def)
  show ?thesis
    by (simp only: eq sublist_appendI)
qed

lemma length_line_in_render:
  "sublist (''- Length: '' @ str_int mn @ ''-'' @ str_int mx @ '' words'')
     (render_template topic items mn mx g inc is_fast)"
proof -
  define ps where "ps =
     ''\<newline>Write a comprehensive blog post about: '' @ topic @ ''\<newline>\<newline>'' @
     (if items \<noteq> [] then
        ''\<newline>Additional context to consider:\<newline>'' @
        concat (map (\<lambda>(key, value). ''\<newline>- '' @ key @ '': '' @ value @ ''\<newline>'') items) @
        ''\<newline>''
      else []) @
     ''\<newline>\<newline>Requirements:\<newline>''"
  define ss where "ss =
     ''\<newline>'' @
     ''- Include a compelling, descriptive headline\<newline>'' @
     ''- Use markdown formatting (## for subheadings, ** for emphasis)\<newline>'' @
     ''- End with a summary paragraph of key takeaways\<newline>'' @
     ''- If specific sources are referenced, format as [Source Name](url)\<newline>'' @
     ''- '' @ g @ ''\<newline>'' @
     (if is_fast then
        ''\<newline>- Optimize for speed: keep the response concise and focused.\<newline>''
      else []) @
     ''\<newline>\<newline>'' @
     (if inc then ''\<newline>'' @ sources_directive @ ''\<newline>'' else [])"
  have eq: "render_template topic items mn mx g inc is_fast =
        ps @ (''- Length: '' @ str_int mn @ ''-'' @ str_int mx @ '' words'') @ ss"
    by (simp add: render_template_def ps_def ss_def)
  show ?thesis
    by (simp only: eq sublist_appendI)
qed


text \<open>
  C8. For \<open>speed = 'fast'\<close> the template emits no sources-section directive: the
  rendered user prompt does not contain that sentence (the topic and the additional
  context are inserted verbatim, so they are taken not to contain it themselves), and it
  asks for \<open>FAST_MIN_WORDS\<close>-\<open>FAST_MAX_WORDS\<close> words (180-260 by default). For
  every other speed the rendered user prompt contains the directive and asks for
  \<open>NORMAL_MIN_WORDS\<close>-\<open>NORMAL_MAX_WORDS\<close> words (800-1200 by default).
\<close>

theorem user_prompt_by_speed:
  "((\<not> py_in sources_directive topic \<and>
     (\<forall>(k, v) \<in> set additional_context.
         \<not> py_in sources_directive k \<and> \<not> py_in sources_directive v)) \<longrightarrow>
      \<not> py_in sources_directive (render_user_prompt cfg topic p additional_context ''fast''))
   \<and> py_in (''- Length: '' @ str_int (FAST_MIN_WORDS cfg) @ ''-'' @ str_int (FAST_MAX_WORDS cfg) @ '' words'')
        (render_user_prompt cfg topic p additional_context ''fast'')
   \<and> (speed \<noteq> ''fast'' \<longrightarrow>
        py_in sources_directive (render_user_prompt cfg topic p additional_context speed)
      \<and> py_in (''- Length: '' @ str_int (NORMAL_MIN_WORDS cfg) @ ''-'' @ str_int (NORMAL_MAX_WORDS cfg) @ '' words'')
           (render_user_prompt cfg topic p additional_context speed))"
proof -
  have g: "(case map_of (get_persona_custom_variables p) ''style_guidance'' of
              None \<Rightarrow> [] | Some g \<Rightarrow> g) = style_guidance p"
    by (simp add: get_persona_custom_variables_def)
  have fast: "render_user_prompt cfg topic p additional_context ''fast'' =
      render_template topic additional_context (FAST_MIN_WORDS cfg) (FAST_MAX_WORDS cfg)
        (style_guidance p) False True"
    by (simp add: render_user_prompt_def g)
  have slow: "speed \<noteq> ''fast'' \<Longrightarrow> render_user_prompt cfg topic p additional_context speed =
      render_template topic additional_context (NORMAL_MIN_WORDS cfg) (NORMAL_MAX_WORDS cfg)
        (style_guidance p) True False"
    by (simp add: render_user_prompt_def g)
  have c1: "(\<not> py_in sources_directive topic \<and>
     (\<forall>(k, v) \<in> set additional_context.
         \<not> py_in sources_directive k \<and> \<not> py_in sources_directive v)) \<longrightarrow>
      \<not> py_in sources_directive (render_user_prompt cfg topic p additional_context ''fast'')"
    unfolding fast py_in_sublist
    using directive_not_in_fast_render [OF _ _ directive_not_in_style] by blast
  have c2: "py_in (''- Length: '' @ str_int (FAST_MIN_WORDS cfg) @ ''-'' @ str_int (FAST_MAX_WORDS cfg) @ '' words'')
        (render_user_prompt cfg topic p additional_context ''fast'')"
    unfolding fast py_in_sublist by (rule length_line_in_render)
  have c3: "speed \<noteq> ''fast'' \<longrightarrow>
        py_in sources_directive (render_user_prompt cfg topic p additional_context speed)
      \<and> py_in (''- Length: '' @ str_int (NORMAL_MIN_WORDS cfg) @ ''-'' @ str_int (NORMAL_MAX_WORDS cfg) @ '' words'')
           (render_user_prompt cfg topic p additional_context speed)"
    using slow directive_in_full_render length_line_in_render
    by (simp add: py_in_sublist)
  from c1 c2 c3 show ?thesis by blast
qed

lemma str_int_180: "str_int 180 = ''180''" by code_simp
lemma str_int_260: "str_int 260 = ''260''" by code_simp
lemma str_int_800: "str_int 800 = ''800''" by code_simp
lemma str_int_1200: "str_int 1200 = ''1200''" by code_simp

theorem user_prompt_by_speed_witness:
  "\<not> py_in sources_directive
       (render_user_prompt default_settings ''Future of renewable energy'' example_persona
          [(''audience'', ''engineers'')] ''fast'')
   \<and> py_in ''- Length: 180-260 words''
       (render_user_prompt default_settings ''Future of renewable energy'' example_persona
          [(''audience'', ''engineers'')] ''fast'')
   \<and> py_in sources_directive
       (render_user_prompt default_settings ''Future of renewable energy'' example_persona
          [(''audience'', ''engineers'')] ''normal'')
   \<and> py_in ''- Length: 800-1200 words''
       (render_user_prompt default_settings ''Future of renewable energy'' example_persona
          [(''audience'', ''engineers'')] ''normal'')"
proof -
  have h1: "\<not> py_in sources_directive ''Future of renewable energy''"
    by (simp add: py_in_sublist directive_skip directive_Nil)
  have h2: "\<forall>(k, v) \<in> set [(''audience'', ''engineers'')].
      \<not> py_in sources_directive k \<and> \<not> py_in sources_directive v"
    by (simp add: py_in_sublist directive_skip directive_Nil)
  have w: "FAST_MIN_WORDS default_settings = 180" "FAST_MAX_WORDS default_settings = 260"
    "NORMAL_MIN_WORDS default_settings = 800" "NORMAL_MAX_WORDS default_settings = 1200"
    by (simp_all add: default_settings_def)
  have n: "''normal'' \<noteq> ''fast''" by simp
  show ?thesis
    using user_prompt_by_speed [of "''Future of renewable energy''" "[(''audience'', ''engineers'')]"
        default_settings example_persona "''normal''"] h1 h2 n
    unfolding w str_int_180 str_int_260 str_int_800 str_int_1200
    by simp
qed

section \<open>Properties of the response parser\<close>

text \<open>
  C5. Parsing \<^verbatim>\<open>"# My Title\n\nBody text.\n\n## Sources\n- [Example](https://www.example.com/a)\n"\<close>
  yields the title \<open>My Title\<close>, the one source with title \<open>Example\<close>, the URL as
  written, domain \<open>example.com\<close>, \<open>is_verified\<close> false and \<open>relevance_score\<close> null,
  and a markdown body, \<^verbatim>\<open>"# My Title\n\nBody text."\<close>, in which no \<open>## Sources\<close> is left.
\<close>

theorem parse_response_round_trip:
  "parse_response bracketed_ok
     ''# My Title\<newline>\<newline>Body text.\<newline>\<newline>## Sources\<newline>- [Example](https://www.example.com/a)\<newline>'' =
   Inr \<lparr> markdown = ''# My Title\<newline>\<newline>Body text.'',
         parsed_sources =
           [JObj [(''title'', JStr ''Example''), (''url'', JStr ''https://www.example.com/a''),
                  (''domain'', JStr ''example.com''), (''is_verified'', JBool False),
                  (''relevance_score'', JNull)]],
         parsed_title = Some ''My Title'',
         parsed_structure =
           [(''word_count'', JInt 5), (''heading_count'', JInt 1),
            (''reading_time_minutes'', JInt 1),
            (''headings'', JArr [JObj [(''level'', JStr ''#''), (''text'', JStr ''My Title'')]])] \<rparr>
   \<and> py_in ''## Sources'' ''# My Title\<newline>\<newline>Body text.'' = False"
  by code_simp







text \<open>
  C9. The stored domain is the netloc with every occurrence of \<open>www.\<close> removed, not
  only a leading one: for \<^verbatim>\<open>https://sub.www.example.com/a\<close>, whose host
  \<open>sub.www.example.com\<close> has no leading \<open>www.\<close>, the domain is \<open>sub.example.com\<close>.
\<close>

theorem domain_drops_inner_www:
  "parse_sources bracketed_ok ''- [Example](https://sub.www.example.com/a)'' =
   Inr [JObj [(''title'', JStr ''Example''), (''url'', JStr ''https://sub.www.example.com/a''),
              (''domain'', JStr ''sub.example.com''), (''is_verified'', JBool False),
              (''relevance_score'', JNull)]]
   \<and> urlparse_netloc bracketed_ok ''https://sub.www.example.com/a'' = Inr ''sub.www.example.com''"
  by code_simp

lemma parse_empty:
  "parse_response bracketed_ok [] =
   Inr \<lparr> markdown = [], parsed_sources = [], parsed_title = None,
         parsed_structure =
           [(''word_count'', JInt 0), (''heading_count'', JInt 0),
            (''reading_time_minutes'', JInt 1), (''headings'', JArr [])] \<rparr>"
  by code_simp

lemma parse_title_only:
  "parse_response bracketed_ok ''# My Title\<newline>\<newline>Body text.'' =
   Inr \<lparr> markdown = ''# My Title\<newline>\<newline>Body text.'',
         parsed_sources = [],
         parsed_title = Some ''My Title'',
         parsed_structure =
           [(''word_count'', JInt 5), (''heading_count'', JInt 1),
            (''reading_time_minutes'', JInt 1),
            (''headings'', JArr [JObj [(''level'', JStr ''#''), (''text'', JStr ''My Title'')]])] \<rparr>"
  by code_simp


section \<open>Properties of \<open>generate_post\<close>\<close>

lemma claude_success_first:
  assumes "create req 0 = Message blocks it ot gt" "0 \<le> max_retries"
  shows "call_claude_with_retry cfg p create req max_retries st now =
     \<lparr> result = Inr \<lparr> content = (case blocks of [] \<Rightarrow> [] | b # _ \<Rightarrow> b),
                        usage = [(''model'', JStr (req_model req)),
                                 (''input_tokens'', JInt it),
                                 (''output_tokens'', JInt ot),
                                 (''total_tokens'', JInt (it + ot)),
                                 (''generation_time_seconds'', JNum gt),
                                 (''retry_count'', JInt 0)] \<rparr>,
       calls = 1, sleeps = [], circuit_after = st \<rparr>"
proof -
  from assms(2) obtain k where k: "nat (max_retries + 1) = Suc k"
    by (cases "nat (max_retries + 1)") simp_all
  show ?thesis
    by (simp add: call_claude_with_retry_def finish_retry_def k assms(1))
qed

lemma check_initial: "check_circuit_state p provider_state_init 100 100 = Inr ()"
  by (simp add: check_circuit_state_Inr get_state_def provider_state_init_def closed_state_def)

lemma call_model_auth_failure:
  "call_model_with_retry default_settings ''gemini'' auth_failure_env provider_state_init
     sys usr temp mxt ''fast'' =
   \<lparr> result = Inl (ServiceError
            ''Gemini API key is invalid or expired. Create/rotate a valid key and retry.''
            ''AUTH_ERROR''
            [(''provider'', JStr ''gemini''), (''status_code'', JInt 400),
             (''reason'', JStr ''API_KEY_INVALID'')]),
     calls = 1, sleeps = [], circuit_after = provider_state_init \<rparr>"
proof -
  have e: "time_check auth_failure_env = 100" "time_retry_after auth_failure_env = 100"
    "urlopen auth_failure_env = (\<lambda>_ _. HTTPError 400 ''{}'' [] ''API_KEY_INVALID'')"
    by (simp_all add: auth_failure_env_def)
  have rc: "resolve_retry_count default_settings ''fast'' = 0"
    by (simp add: resolve_retry_count_def)
  show ?thesis
    by (simp add: call_model_with_retry_def e check_initial rc Let_def
        gemini_fatal_first [OF _ ex_gemini_400] then_record_success_def)
qed

lemma call_model_titled_answer:
  "call_model_with_retry default_settings ''anthropic'' titled_answer_env provider_state_init
     sys usr temp mxt ''fast'' =
   \<lparr> result = Inr \<lparr> content = ''# My Title\<newline>\<newline>Body text.'',
                      usage = [(''model'', JStr ''claude-3-5-sonnet-20241022''),
                               (''input_tokens'', JInt 10),
                               (''output_tokens'', JInt 20),
                               (''total_tokens'', JInt 30),
                               (''generation_time_seconds'', JNum (3 / 2)),
                               (''retry_count'', JInt 0)] \<rparr>,
     calls = 1, sleeps = [],
     circuit_after = record_success ''anthropic'' provider_state_init \<rparr>"
proof -
  have e: "time_check titled_answer_env = 100" "time_retry_after titled_answer_env = 100"
    "messages_create titled_answer_env =
       (\<lambda>_ _. Message [''# My Title\<newline>\<newline>Body text.''] 10 20 (3 / 2))"
    by (simp_all add: titled_answer_env_def)
  have rc: "resolve_retry_count default_settings ''fast'' = 0"
    by (simp add: resolve_retry_count_def)
  have rm: "resolve_model default_settings ''anthropic'' ''fast'' = ''claude-3-5-sonnet-20241022''"
    by (simp add: resolve_model_def default_settings_def)
  have cc: "call_claude_with_retry default_settings ''anthropic''
          (\<lambda>_ _. Message [''# My Title\<newline>\<newline>Body text.''] 10 20 (3 / 2)) req 0 st now =
     \<lparr> result = Inr \<lparr> content = ''# My Title\<newline>\<newline>Body text.'',
                        usage = [(''model'', JStr (req_model req)),
                                 (''input_tokens'', JInt 10),
                                 (''output_tokens'', JInt 20),
                                 (''total_tokens'', JInt 30),
                                 (''generation_time_seconds'', JNum (3 / 2)),
                                 (''retry_count'', JInt 0)] \<rparr>,
       calls = 1, sleeps = [], circuit_after = st \<rparr>" for req st now
    using claude_success_first [of "\<lambda>_ _. Message [''# My Title\<newline>\<newline>Body text.''] 10 20 (3 / 2)"
        req "[''# My Title\<newline>\<newline>Body text.'']" 10 20 "3 / 2" 0 default_settings "''anthropic''" st now]
    by simp
  show ?thesis
    by (simp add: call_model_with_retry_def e check_initial rc rm Let_def cc then_record_success_def)
qed

lemma validate_example:
  "validate_generation_input ''Future of renewable energy'' ''technical'' = Inr ()"
  by code_simp

lemma get_persona_example: "get_persona example_db ''technical'' = Inr example_persona"
  by (simp add: get_persona_def example_db_def example_persona_def)

lemma create_example:
  "create_post_record example_db topic example_persona prompt =
     (2, \<lparr> title = ''Draft: '' @ take 50 topic @ ''...'', topic_input = topic,
            raw_prompt = prompt, generated_content = [], content_structure = [],
            post_persona = Some 1, sources = [], status = GENERATING, sentiment_score = 0,
            metadata = [], published_at = None \<rparr>,
      example_db \<lparr> posts := (posts example_db)(2 \<mapsto>
          \<lparr> title = ''Draft: '' @ take 50 topic @ ''...'', topic_input = topic,
            raw_prompt = prompt, generated_content = [], content_structure = [],
            post_persona = Some 1, sources = [], status = GENERATING, sentiment_score = 0,
            metadata = [], published_at = None \<rparr>), next_post_id := 3 \<rparr>)"
  by (simp add: create_post_record_def Let_def example_db_def example_persona_def)

text \<open>
  Every error that \<open>_call_model_with_retry\<close> raises is a \<open>ServiceError\<close>, so inside
  \<open>generate_post\<close> it reaches the first \<open>except\<close> clause, which saves the status and
  nothing else. Only an error of another class, such as the \<open>ValueError\<close> of the parser,
  reaches the clause that stores the error text.
\<close>

lemma anthropic_fatal_ServiceError:
  "anthropic_fatal sc msg = Some e \<Longrightarrow> is_ServiceError e"
  by (auto simp: anthropic_fatal_def split: option.splits if_splits)

lemma gemini_fatal_ServiceError:
  "gemini_fatal c b m rs = Some e \<Longrightarrow> is_ServiceError e"
  unfolding gemini_fatal_def Let_def
  by (auto split: if_splits)

lemma claude_loop_Raised_ServiceError:
  "claude_loop cfg create model mr k a l sl = (Raised e, n, sl') \<Longrightarrow> is_ServiceError e"
proof (induction k arbitrary: a l sl)
  case 0
  then show ?case by simp
next
  case (Suc k)
  show ?case
  proof (cases "create a")
    case (Message bs it ot gt)
    with Suc.prems show ?thesis by simp
  next
    case (AnthropicError sc msg)
    show ?thesis
    proof (cases "anthropic_fatal sc msg")
      case None
      with Suc.prems AnthropicError
      have "claude_loop cfg create model mr k (Suc a) (Some msg)
              (if int a < mr then sl @ [RETRY_DELAY cfg * 2 ^ a] else sl) = (Raised e, n, sl')"
        by simp
      then show ?thesis by (rule Suc.IH)
    next
      case (Some e')
      with Suc.prems AnthropicError have "e = e'" by simp
      with Some show ?thesis using anthropic_fatal_ServiceError by blast
    qed
  next
    case (OtherException t)
    with Suc.prems show ?thesis by simp
  qed
qed

lemma gemini_loop_Raised_ServiceError:
  "gemini_loop cfg fetch model mr k a l sl = (Raised e, n, sl') \<Longrightarrow> is_ServiceError e"
proof (induction k arbitrary: a l sl)
  case 0
  then show ?case by simp
next
  case (Suc k)
  show ?case
  proof (cases "fetch a")
    case (GeminiResponse ps u gt)
    with Suc.prems show ?thesis by simp
  next
    case (HTTPError c b m rs)
    show ?thesis
    proof (cases "gemini_fatal c b m rs")
      case None
      with Suc.prems HTTPError
      have "gemini_loop cfg fetch model mr k (Suc a) (Some (''HTTP '' @ str_int c @ '': '' @ b))
              (if int a < mr then sl @ [RETRY_DELAY cfg * 2 ^ a] else sl) = (Raised e, n, sl')"
        by simp
      then show ?thesis by (rule Suc.IH)
    next
      case (Some e')
      with Suc.prems HTTPError have "e = e'" by simp
      with Some show ?thesis using gemini_fatal_ServiceError by blast
    qed
  next
    case (GeminiException t)
    with Suc.prems
    have "gemini_loop cfg fetch model mr k (Suc a) (Some t)
            (if int a < mr then sl @ [RETRY_DELAY cfg * 2 ^ a] else sl) = (Raised e, n, sl')"
      by simp
    then show ?thesis by (rule Suc.IH)
  qed
qed

lemma finish_retry_ServiceError:
  assumes "result (finish_retry cfg p name st now lp) = Inl e"
    and "\<And>e' n sl. lp = (Raised e', n, sl) \<Longrightarrow> is_ServiceError e'"
  shows "is_ServiceError e"
proof -
  obtain le n sl where lp: "lp = (le, n, sl)" by (cases lp) auto
  show ?thesis
  proof (cases le)
    case (Returned d)
    with assms(1) lp show ?thesis by (simp add: finish_retry_def)
  next
    case (Raised e')
    with assms(1) lp have "e = e'" by (simp add: finish_retry_def)
    with assms(2) [of e' n sl] lp Raised show ?thesis by simp
  next
    case (Exhausted last)
    with assms(1) lp show ?thesis by (auto simp: finish_retry_def)
  qed
qed

lemma then_record_success_Inl:
  "result (then_record_success p r) = Inl e \<Longrightarrow> result r = Inl e"
  by (cases "result r") (simp_all add: then_record_success_def)

lemma call_model_raises_ServiceError:
  assumes "result (call_model_with_retry cfg p ev st sys usr temp mxt speed) = Inl e"
  shows "is_ServiceError e"
proof (cases "check_circuit_state p st (time_check ev) (time_retry_after ev)")
  case (Inl e')
  with assms have "e = e'" by (simp add: call_model_with_retry_def)
  with Inl show ?thesis
    by (auto simp: check_circuit_state_def Let_def split: if_splits)
next
  case (Inr u)
  consider (a) "p = ''anthropic''" | (g) "p \<noteq> ''anthropic''" "p = ''gemini''"
    | (o) "p \<noteq> ''anthropic''" "p \<noteq> ''gemini''" by blast
  then show ?thesis
  proof cases
    case a
    with assms Inr show ?thesis
      unfolding call_model_with_retry_def Let_def call_claude_with_retry_def
      by (auto dest!: then_record_success_Inl
          elim!: finish_retry_ServiceError dest: claude_loop_Raised_ServiceError)
  next
    case g
    with assms Inr show ?thesis
      unfolding call_model_with_retry_def Let_def call_gemini_with_retry_def
      by (auto dest!: then_record_success_Inl
          elim!: finish_retry_ServiceError dest: gemini_loop_Raised_ServiceError)
  next
    case o
    with assms Inr show ?thesis
      by (auto simp: call_model_with_retry_def Let_def)
  qed
qed

lemma provider_error_saves_status_only:
  assumes "is_ServiceError e"
  shows "posts (mark_failed d pk blog_post e) pk = Some (blog_post \<lparr> status := FAILED \<rparr>)"
    and "reraise e context = e"
  using assms by (cases e; simp add: mark_failed_def reraise_def)+

lemma other_exception_saves_error_text:
  "posts (mark_failed d pk blog_post (PyException text)) pk =
     Some (blog_post \<lparr> status := FAILED,
                         metadata := dict_set ''error'' (JStr text) (metadata blog_post) \<rparr>)"
  by (simp add: mark_failed_def)

lemma parse_response_unmatched_bracket:
  "parse_response bracketed_ok ''## Sources\<newline>[a](http://[x)\<newline>'' =
   Inl (PyException ''Invalid IPv6 URL'')"
  by code_simp

lemma call_model_bracket_answer:
  "call_model_with_retry default_settings ''anthropic'' bracket_answer_env provider_state_init
     sys usr temp mxt ''fast'' =
   \<lparr> result = Inr \<lparr> content = ''## Sources\<newline>[a](http://[x)\<newline>'',
                      usage = [(''model'', JStr ''claude-3-5-sonnet-20241022''),
                               (''input_tokens'', JInt 10),
                               (''output_tokens'', JInt 20),
                               (''total_tokens'', JInt 30),
                               (''generation_time_seconds'', JNum (3 / 2)),
                               (''retry_count'', JInt 0)] \<rparr>,
     calls = 1, sleeps = [],
     circuit_after = record_success ''anthropic'' provider_state_init \<rparr>"
proof -
  have e: "time_check bracket_answer_env = 100" "time_retry_after bracket_answer_env = 100"
    "messages_create bracket_answer_env =
       (\<lambda>_ _. Message [''## Sources\<newline>[a](http://[x)\<newline>''] 10 20 (3 / 2))"
    by (simp_all add: bracket_answer_env_def)
  have rc: "resolve_retry_count default_settings ''fast'' = 0"
    by (simp add: resolve_retry_count_def)
  have rm: "resolve_model default_settings ''anthropic'' ''fast'' = ''claude-3-5-sonnet-20241022''"
    by (simp add: resolve_model_def default_settings_def)
  have cc: "call_claude_with_retry default_settings ''anthropic''
          (\<lambda>_ _. Message [''## Sources\<newline>[a](http://[x)\<newline>''] 10 20 (3 / 2)) req 0 st now =
     \<lparr> result = Inr \<lparr> content = ''## Sources\<newline>[a](http://[x)\<newline>'',
                        usage = [(''model'', JStr (req_model req)),
                                 (''input_tokens'', JInt 10),
                                 (''output_tokens'', JInt 20),
                                 (''total_tokens'', JInt 30),
                                 (''generation_time_seconds'', JNum (3 / 2)),
                                 (''retry_count'', JInt 0)] \<rparr>,
       calls = 1, sleeps = [], circuit_after = st \<rparr>" for req st now
    using claude_success_first [of "\<lambda>_ _. Message [''## Sources\<newline>[a](http://[x)\<newline>''] 10 20 (3 / 2)"
        req "[''## Sources\<newline>[a](http://[x)\<newline>'']" 10 20 "3 / 2" 0 default_settings "''anthropic''" st now]
    by simp
  show ?thesis
    by (simp add: call_model_with_retry_def e check_initial rc rm Let_def cc then_record_success_def)
qed

lemma parser_error_is_recorded:
  "(case generate_post default_settings ''anthropic'' ps bracketed_ok bracket_answer_env 200
           example_db provider_state_init ''Future of renewable energy'' ''technical'' [] ''fast''
    of (r, d, st) \<Rightarrow>
      r = Inl (ServiceError ''Invalid IPv6 URL'' ''SERVICE_ERROR''
                 [(''topic'', JStr ''Future of renewable energy''), (''persona'', JStr ''technical'')])
      \<and> map_option status (posts d 2) = Some FAILED
      \<and> map_option metadata (posts d 2) = Some [(''error'', JStr ''Invalid IPv6 URL'')])"
  by (simp add: generate_post_def validate_example get_persona_example build_generation_prompt_def
      create_example call_model_bracket_answer parse_response_unmatched_bracket mark_failed_def reraise_def
      handle_exception_def)

lemma provider_error_saves_no_error_text:
  assumes v: "validate_generation_input topic slug = Inr ()"
    and g: "get_persona d slug = Inr p"
    and b: "build_generation_prompt cfg ps topic p additional_context speed = (sys, usr)"
    and c: "create_post_record d topic p usr = (pk, blog_post, d1)"
    and r: "result (call_model_with_retry cfg provider ev st sys usr (persona_temperature p)
                      (resolve_max_tokens cfg (persona_max_tokens p) speed) speed) = Inl e"
  shows "fst (generate_post cfg provider ps bracketed_ok ev now d st topic slug
                additional_context speed) = Inl e"
    and "posts (fst (snd (generate_post cfg provider ps bracketed_ok ev now d st topic slug
                            additional_context speed))) pk =
           Some (blog_post \<lparr> status := FAILED \<rparr>)"
    and "metadata blog_post = []"
proof -
  have se: "is_ServiceError e" using r by (rule call_model_raises_ServiceError)
  have gp: "generate_post cfg provider ps bracketed_ok ev now d st topic slug
              additional_context speed =
            (Inl (reraise e [(''topic'', JStr topic), (''persona'', JStr slug)]),
             mark_failed d1 pk blog_post e,
             circuit_after (call_model_with_retry cfg provider ev st sys usr (persona_temperature p)
                      (resolve_max_tokens cfg (persona_max_tokens p) speed) speed))"
    by (simp add: generate_post_def v g b c r)
  show "fst (generate_post cfg provider ps bracketed_ok ev now d st topic slug
                additional_context speed) = Inl e"
    by (simp add: gp provider_error_saves_status_only(2) [OF se])
  show "posts (fst (snd (generate_post cfg provider ps bracketed_ok ev now d st topic slug
                            additional_context speed))) pk =
           Some (blog_post \<lparr> status := FAILED \<rparr>)"
    by (simp add: gp provider_error_saves_status_only(1) [OF se])
  show "metadata blog_post = []"
    using c by (auto simp: create_post_record_def Let_def)
qed

text \<open>
  C1. A fatal provider error does not put its text into the post's metadata: with a
  Gemini endpoint that rejects the API key, \<open>generate_post\<close> raises the
  \<open>AUTH_ERROR\<close> \<open>ServiceError\<close> and the post created for the request is saved with
  status \<open>failed\<close> and an empty metadata dictionary. Only the \<open>except Exception\<close>
  clause stores \<open>metadata['error']\<close>; the \<open>except ServiceError\<close> clause, which every
  error of the provider call reaches, does not.
\<close>

theorem auth_error_stores_no_error_text:
  "(case generate_post default_settings ''gemini'' ps bracketed_ok auth_failure_env 200
           example_db provider_state_init ''Future of renewable energy'' ''technical'' [] ''fast''
    of (r, d, st) \<Rightarrow>
      r = Inl (ServiceError
            ''Gemini API key is invalid or expired. Create/rotate a valid key and retry.''
            ''AUTH_ERROR''
            [(''provider'', JStr ''gemini''), (''status_code'', JInt 400),
             (''reason'', JStr ''API_KEY_INVALID'')])
      \<and> map_option status (posts d 2) = Some FAILED
      \<and> map_option metadata (posts d 2) = Some [])"
  by (simp add: generate_post_def validate_example get_persona_example build_generation_prompt_def
      create_example call_model_auth_failure mark_failed_def reraise_def)


lemma analyze_structure_has_no_title: "map_of (analyze_structure md) ''title'' = None"
  by (simp add: analyze_structure_def Let_def)

text \<open>
  C2. The extracted title is not stored: with an answer
  \<^verbatim>\<open>"# My Title\n\nBody text."\<close>, from which the parser extracts the title
  \<open>My Title\<close>, the generation completes and the saved post still has its placeholder
  title. \<open>_update_post_with_content\<close> looks the title up in the \<open>structure\<close>
  dictionary, which is the result of \<open>_analyze_structure\<close> and has no such key.
\<close>

theorem extracted_title_is_not_stored:
  "(case generate_post default_settings ''anthropic'' ps bracketed_ok titled_answer_env 200
           example_db provider_state_init ''Future of renewable energy'' ''technical'' [] ''fast''
    of (r, d, st) \<Rightarrow>
      (\<exists>p. parse_response bracketed_ok ''# My Title\<newline>\<newline>Body text.'' = Inr p
           \<and> parsed_title p = Some ''My Title'')
      \<and> (\<exists>g. r = Inr g \<and> gen_status g = ''completed'' \<and> gen_blog_post_id g = 2)
      \<and> map_option status (posts d 2) = Some COMPLETED
      \<and> map_option generated_content (posts d 2) = Some ''# My Title\<newline>\<newline>Body text.''
      \<and> map_option title (posts d 2) = Some ''Draft: Future of renewable energy...'')"
  by (simp add: generate_post_def validate_example get_persona_example build_generation_prompt_def
      create_example call_model_titled_answer parse_title_only update_post_with_content_def Let_def)

end
